theory Spec2Isabelle
  imports Complex_Main
begin

section \<open>Errors\<close>

text \<open>
  The exceptions the modelled functions can raise. \<open>ValueError\<close> carries its message.
  \<open>UnboundLocalError\<close> is what Python raises when a loop variable is read after a loop
  that never ran, \<open>TypeError\<close> what \<open>zip\<close> raises on an argument that cannot be iterated.
\<close>

datatype error =
    ValueError string
  | IndexError
  | LinAlgError
  | UnboundLocalError
  | RuntimeError
  | TypeError

definition bind_err :: "error + 'a \<Rightarrow> ('a \<Rightarrow> error + 'b) \<Rightarrow> error + 'b" where
  "bind_err m f = (case m of Inl e \<Rightarrow> Inl e | Inr x \<Rightarrow> f x)"

section \<open>The line catalog (src/spec_slice.py)\<close>

subsection \<open>Python helpers: \<open>str.upper\<close>, \<open>in\<close> on strings, \<open>list.pop\<close>\<close>

text \<open>
  Strings are byte lists (UTF-8). \<open>upper_char\<close> maps the ASCII letters a-z to A-Z and
  leaves every other byte unchanged.
\<close>

definition upper_char :: "char \<Rightarrow> char" where
  "upper_char c =
     (let n = (of_char c :: nat) in if 97 \<le> n \<and> n \<le> 122 then char_of (n - 32) else c)"

definition upper :: "string \<Rightarrow> string" where
  "upper s = map upper_char s"

fun is_prefix :: "'a list \<Rightarrow> 'a list \<Rightarrow> bool" where
  "is_prefix [] ys = True"
| "is_prefix (x # xs) [] = False"
| "is_prefix (x # xs) (y # ys) = (x = y \<and> is_prefix xs ys)"

text \<open>\<open>str_contains s sub\<close> is Python's \<open>sub in s\<close> on strings.\<close>

fun str_contains :: "'a list \<Rightarrow> 'a list \<Rightarrow> bool" where
  "str_contains [] sub = is_prefix sub []"
| "str_contains (c # cs) sub = (is_prefix sub (c # cs) \<or> str_contains cs sub)"

text \<open>
  \<open>pop xs i\<close> is \<open>xs.pop(i)\<close>, returning the list that remains: a negative index counts
  from the end, an index out of range raises IndexError.
\<close>

definition pop :: "'a list \<Rightarrow> int \<Rightarrow> error + 'a list" where
  "pop xs i =
     (let n = int (length xs); j = (if i < 0 then n + i else i)
      in if 0 \<le> j \<and> j < n then Inr (take (nat j) xs @ drop (Suc (nat j)) xs)
         else Inl IndexError)"

subsection \<open>Line groups\<close>

record line_group =
  min_lambda :: int
  max_lambda :: int
  main_line_name :: string
  line_names :: "string list"
  line_wavlengths :: "real list"

text \<open>The labels "He \<open>\<iota>\<close>" and "H \<open>\<iota>\<close>" end in U+026A, here its two UTF-8 bytes.\<close>

definition He_I :: string where
  "He_I = ''He '' @ [CHR 0xC9, CHR 0xAA]"

definition H_I :: string where
  "H_I = ''H '' @ [CHR 0xC9, CHR 0xAA]"

text \<open>src/spec_slice.py, lines 18-110: the list literal of the G140 branch.\<close>

definition G140_line_library :: "line_group list" where
  "G140_line_library =
   [\<lparr>min_lambda = 10020, max_lambda = 10100,
      main_line_name = ''Pa$'' @ [CHR 0x5C] @ ''delta$'',
      line_names = [He_I, He_I, H_I, He_I],
      line_wavlengths = [10030.469746750001,
        10033.900158100001,
        10052.128,
        10074.806682083332]\<rparr>,
    \<lparr>min_lambda = 10780, max_lambda = 10900,
      main_line_name = He_I,
      line_names = [He_I, He_I, He_I],
      line_wavlengths = [10832.057471999999,
        10833.216751,
        10833.306444]\<rparr>,
    \<lparr>min_lambda = 10910, max_lambda = 10990,
      main_line_name = ''Pa$'' @ [CHR 0x5C] @ ''gamma$'',
      line_names = [He_I, He_I, H_I],
      line_wavlengths = [10915.991686366666,
        10920.0525431,
        10941.09]\<rparr>,
    \<lparr>min_lambda = 12760, max_lambda = 12885,
      main_line_name = ''Pa$'' @ [CHR 0x5C] @ ''beta$'',
      line_names = [He_I, He_I, H_I, He_I, He_I],
      line_wavlengths = [12788.43071063333,
        12793.999402500001,
        12821.59,
        12849.46706775,
        12849.941156]\<rparr>,
    \<lparr>min_lambda = 17350, max_lambda = 17430,
      main_line_name = ''Br$'' @ [CHR 0x5C] @ ''zeta$'',
      line_names = [He_I, He_I, H_I, He_I],
      line_wavlengths = [17356.476694124285,
        17358.26905142667,
        17366.85,
        17379.688902016667]\<rparr>,
    \<lparr>min_lambda = 18675, max_lambda = 18820,
      main_line_name = ''Pa$'' @ [CHR 0x5C] @ ''alpha$'',
      line_names = [He_I, He_I, H_I],
      line_wavlengths = [18690.442142149997,
        18702.3180723,
        18756.13]\<rparr>]"

text \<open>src/spec_slice.py, lines 119-183: the additional groups of the G140 branch.\<close>

definition G140_extended_lines :: "line_group list" where
  "G140_extended_lines =
   [\<lparr>min_lambda = 8980, max_lambda = 9060,
      main_line_name = ''Pa$'' @ [CHR 0x5C] @ ''eta$'',
      line_names = [He_I, He_I, He_I, ''He II'', H_I],
      line_wavlengths = [8999.4379225875,
        8999.9904730,
        9011.63606005,
        9013.688,
        9017.385]\<rparr>,
    \<lparr>min_lambda = 9190, max_lambda = 9290,
      main_line_name = ''Pa$'' @ [CHR 0x5C] @ ''zeta$'',
      line_names = [He_I, ''He I'', ''He I'', ''H I''],
      line_wavlengths = [9212.852746244444,
        9215.75788475,
        9227.763,
        9231.547]\<rparr>]"

text \<open>src/spec_slice.py, lines 190-309: the list literal of the G235 branch.\<close>

definition G235_line_library :: "line_group list" where
  "G235_line_library =
   [\<lparr>min_lambda = 16800, max_lambda = 16850,
      main_line_name = ''Br$'' @ [CHR 0x5C] @ ''eta$'',
      line_names = [He_I, He_I, H_I],
      line_wavlengths = [16801.156549285715,
        16802.423072166664,
        16811.111]\<rparr>,
    \<lparr>min_lambda = 17300, max_lambda = 17440,
      main_line_name = ''Br$'' @ [CHR 0x5C] @ ''zeta$'',
      line_names = [He_I, He_I, He_I, H_I, He_I],
      line_wavlengths = [17340.3448365,
        17356.476694124285,
        17358.26905142667,
        17366.85,
        17379.688902016667]\<rparr>,
    \<lparr>min_lambda = 18655, max_lambda = 18840,
      main_line_name = ''Pa$'' @ [CHR 0x5C] @ ''alpha$'',
      line_names = [He_I, He_I, H_I],
      line_wavlengths = [18690.442142149997,
        18702.3180723,
        18756.13]\<rparr>,
    \<lparr>min_lambda = 20555, max_lambda = 20660,
      main_line_name = He_I,
      line_names = [He_I, He_I, He_I],
      line_wavlengths = [20586.904629999997,
        20592.79265,
        20607.463187666668]\<rparr>,
    \<lparr>min_lambda = 21575, max_lambda = 21750,
      main_line_name = ''Br$'' @ [CHR 0x5C] @ ''gamma$'',
      line_names = [He_I, He_I, He_I, He_I, He_I, H_I],
      line_wavlengths = [21613.70985955,
        21622.905790999997,
        21647.428962849997,
        21661.199999999997]\<rparr>,
    \<lparr>min_lambda = 26180, max_lambda = 26350,
      main_line_name = ''Br$'' @ [CHR 0x5C] @ ''beta$'',
      line_names = [He_I, He_I, He_I, H_I],
      line_wavlengths = [26192.12167798333,
        26205.6152478,
        26240.915984385712,
        26258.670000000002]\<rparr>,
    \<lparr>min_lambda = 30350, max_lambda = 30480,
      main_line_name = ''Pf$'' @ [CHR 0x5C] @ ''eta$'',
      line_names = [He_I, He_I, He_I, He_I, He_I, H_I],
      line_wavlengths = [30373.882203465,
        30373.934701927996,
        30379.13724103666,
        30392.022]\<rparr>]"

text \<open>src/spec_slice.py, lines 319-547: the list literal of the G395 branch.\<close>

definition G395_line_library :: "line_group list" where
  "G395_line_library =
   [\<lparr>min_lambda = 30330, max_lambda = 30520,
      main_line_name = ''Pf$'' @ [CHR 0x5C] @ ''eta$'',
      line_names = [He_I, He_I, He_I, He_I, He_I, He_I, H_I, He_I],
      line_wavlengths = [30337.957093580004,
        30338.043565500004,
        30338.14237,
        30373.934701927996,
        30377.975075399998,
        30379.406177666668,
        30392.022,
        30399.158583]\<rparr>,
    \<lparr>min_lambda = 37350, max_lambda = 37580,
      main_line_name = ''Pf$'' @ [CHR 0x5C] @ ''gamma$'',
      line_names = [He_I, He_I, He_I, H_I, He_I, He_I, He_I, He_I],
      line_wavlengths = [37328.38483621667,
        37381.94650391429,
        37390.70984881429,
        37405.56,
        37411.76899333333,
        37412.07705,
        37478.342826,
        37493.933000000005]\<rparr>,
    \<lparr>min_lambda = 40300, max_lambda = 40730,
      main_line_name = ''Br$'' @ [CHR 0x5C] @ ''alpha$'',
      line_names = [He_I, He_I, He_I, He_I, He_I, H_I, He_I, He_I, He_I, He_I],
      line_wavlengths = [40377.31950816667,
        40391.224109999996,
        40409.4473965,
        40490.157808985714,
        40512.137976000005,
        40522.62,
        40544.661538,
        40545.048049000005,
        40563.50551566667,
        40574.5684]\<rparr>,
    \<lparr>min_lambda = 42900, max_lambda = 43100,
      main_line_name = He_I,
      line_names = [He_I, He_I, He_I, He_I, He_I, He_I],
      line_wavlengths = [42954.167,
        42959.1611,
        42959.566699999996,
        42959.90127,
        42959.905360000004,
        42959.90569]\<rparr>,
    \<lparr>min_lambda = 43725, max_lambda = 43900,
      main_line_name = ''Hu$'' @ [CHR 0x5C] @ ''zeta$'',
      line_names = [He_I, He_I, He_I, He_I, He_I, He_I, H_I],
      line_wavlengths = [43739.4215275,
        43745.918667499995,
        43746.04701666667,
        43746.1930395,
        43746.2220454,
        43746.46316571428,
        43764.543999999994]\<rparr>,
    \<lparr>min_lambda = 51230, max_lambda = 51450,
      main_line_name = ''Hu$'' @ [CHR 0x5C] @ ''delta$'',
      line_names = [He_I, He_I, H_I],
      line_wavlengths = [51263.32814807571,
        51271.5462147,
        51286.57]\<rparr>]"

text \<open>
  src/spec_slice.py, lines 1-560. The parameter \<open>extend\<close> is named \<open>do_extend\<close> here; each
  \<open>line_library.pop(i)\<close> is one \<open>pop\<close>.
\<close>

definition get_spectra_slice_specs :: "string \<Rightarrow> string \<Rightarrow> bool \<Rightarrow> error + line_group list" where
  "get_spectra_slice_specs disperser0 mode do_extend =
     (let disperser = upper disperser0 in
      if str_contains disperser ''G140'' then
        bind_err
          (if mode = ''FS'' then pop G140_line_library (- 1)
           else if mode = ''MSA'' then
             bind_err (pop G140_line_library (- 1)) (\<lambda>l. pop l 1)
           else Inr G140_line_library)
          (\<lambda>line_library.
             if do_extend then
               bind_err (pop (G140_extended_lines @ line_library) (- 2)) (\<lambda>l. pop l (- 1))
             else Inr line_library)
      else if str_contains disperser ''G235'' then
        (if mode = ''FS'' then
           bind_err (pop G235_line_library 0) (\<lambda>l. pop l (- 1))
         else if mode = ''MSA'' then
           bind_err (pop G235_line_library 0) (\<lambda>l. pop l 2)
         else Inr G235_line_library)
      else if str_contains disperser ''G395'' then
        (if mode = ''FS'' then
           bind_err (pop G395_line_library 1) (\<lambda>l. pop l (- 1))
         else if mode = ''MSA'' then
           bind_err (pop G395_line_library 2)
             (\<lambda>l. bind_err (pop l 1) (\<lambda>l. pop l (- 1)))
         else Inr G395_line_library)
      else Inl (ValueError (''Disperser '' @ disperser @ '' not recognized.'')))"


section \<open>Line shapes and fits (src/util.py)\<close>

text \<open>
  Floating-point numbers are modelled as real numbers and numpy arrays as lists: a vector is
  a list of reals, a matrix the list of its rows. Where the source divides by zero (zero
  \<open>fwhm\<close> or zero noise) numpy yields inf or nan without raising; the reals have no such
  values, so the model's numbers are the program's only where the divisors are non-zero.
  The length of every array is the program's in all cases.
\<close>

type_synonym vec = "real list"
type_synonym matrix = "real list list"

definition light_speed :: real where
  "light_speed = 299792.458"

subsection \<open>Library functions\<close>

text \<open>
  \<open>scipy.special.erf\<close>, \<open>scipy.special.voigt_profile\<close>, \<open>scipy.integrate.quad\<close>,
  \<open>numpy.linalg.lstsq\<close> and \<open>scipy.optimize.nnls\<close> are not part of the repository. Every
  function that calls one of them takes it as a parameter: \<open>erf\<close> a function on the reals,
  \<open>voigt_profile x sigma gamma\<close>, \<open>quad f a b\<close> the estimate of the integral of \<open>f\<close> from
  \<open>a\<close> to \<open>b\<close> (the tolerances fixed at 1e-6), and the two solvers as functions from a
  matrix and a right-hand side to the coefficients or the exception raised.
\<close>

type_synonym solver = "matrix \<Rightarrow> vec \<Rightarrow> error + vec"

text \<open>The error function itself, as its Maclaurin series, for use where a concrete one is needed.\<close>

definition erf_series :: "real \<Rightarrow> real" where
  "erf_series x =
     2 / sqrt pi * (\<Sum>n. (- 1) ^ n * x ^ (2 * n + 1) / (fact n * real (2 * n + 1)))"

subsection \<open>numpy helpers\<close>

definition np_mean :: "vec \<Rightarrow> real" where
  "np_mean x = sum_list x / real (length x)"

text \<open>Elementwise product of two one-dimensional arrays, with numpy's broadcasting.\<close>

definition np_mul :: "vec \<Rightarrow> vec \<Rightarrow> error + vec" where
  "np_mul xs ys =
     (if length xs = length ys then Inr (map2 (*) xs ys)
      else if length ys = 1 then Inr (map (\<lambda>x. x * hd ys) xs)
      else if length xs = 1 then Inr (map (\<lambda>y. hd xs * y) ys)
      else Inl (ValueError ''operands could not be broadcast together''))"

text \<open>\<open>A * s[:, np.newaxis]\<close>: row \<open>i\<close> of \<open>A\<close> times \<open>s[i]\<close>, with numpy's broadcasting.\<close>

definition scale_rows :: "matrix \<Rightarrow> vec \<Rightarrow> error + matrix" where
  "scale_rows A s =
     (if length s = length A then Inr (map2 (\<lambda>row si. map (\<lambda>a. a * si) row) A s)
      else if length s = 1 then Inr (map (map (\<lambda>a. a * hd s)) A)
      else if length A = 1 then Inr (map (\<lambda>si. map (\<lambda>a. a * si) (hd A)) s)
      else Inl (ValueError ''operands could not be broadcast together''))"

text \<open>
  \<open>np.array(cols).T\<close> for a list of one-dimensional arrays: the matrix whose columns they
  are. Arrays of different lengths do not form a matrix.
\<close>

definition np_array_T :: "vec list \<Rightarrow> error + matrix" where
  "np_array_T cols =
     (case cols of
        [] \<Rightarrow> Inr []
      | c # cs \<Rightarrow>
          if list_all (\<lambda>c'. length c' = length c) cs
          then Inr (map (\<lambda>i. map (\<lambda>col. col ! i) cols) [0..<length c])
          else Inl (ValueError ''inhomogeneous shape''))"

text \<open>\<open>A @ c\<close> for a matrix and a vector.\<close>

definition matvec :: "matrix \<Rightarrow> vec \<Rightarrow> error + vec" where
  "matvec A c =
     (if list_all (\<lambda>row. length row = length c) A
      then Inr (map (\<lambda>row. sum_list (map2 (*) row c)) A)
      else Inl (ValueError ''matmul: size mismatch''))"

text \<open>\<open>arr[selected]\<close> for a boolean array \<open>selected\<close>; the lengths must agree.\<close>

definition bool_index :: "'a list \<Rightarrow> bool list \<Rightarrow> error + 'a list" where
  "bool_index arr selected =
     (if length selected = length arr then Inr (map fst (filter snd (zip arr selected)))
      else Inl IndexError)"

subsection \<open>Integrals of the profiles\<close>

text \<open>src/util.py, lines 13-32.\<close>

definition integrate_gaussian :: "(real \<Rightarrow> real) \<Rightarrow> real \<Rightarrow> real \<Rightarrow> real \<Rightarrow> real \<Rightarrow> real" where
  "integrate_gaussian erf a b mu fwhm =
     (let sigma = fwhm / 2.355 in
      sigma * sqrt (pi / 2)
        * (erf ((b - mu) / (sqrt 2 * sigma)) - erf ((a - mu) / (sqrt 2 * sigma))))"

text \<open>
  src/util.py, lines 49-83. The result starts as \<open>np.zeros_like(a)\<close> and is filled along
  \<open>zip(a, b)\<close>, so entries beyond the length of \<open>b\<close> stay zero.
\<close>

definition integrate_voigt ::
  "((real \<Rightarrow> real) \<Rightarrow> real \<Rightarrow> real \<Rightarrow> real) \<Rightarrow> (real \<Rightarrow> real \<Rightarrow> real \<Rightarrow> real)
     \<Rightarrow> vec \<Rightarrow> vec \<Rightarrow> real \<Rightarrow> real \<Rightarrow> real \<Rightarrow> vec" where
  "integrate_voigt quad voigt_profile a b mu fwhm gamma =
     (let sigma = fwhm / 2.355 in
      map (\<lambda>(a', b'). quad (\<lambda>t. voigt_profile t sigma gamma) (a' - mu) (b' - mu)) (zip a b)
        @ replicate (length a - length b) 0)"

text \<open>src/util.py, lines 86-101.\<close>

definition integrate_lorentzian :: "real \<Rightarrow> real \<Rightarrow> real \<Rightarrow> real \<Rightarrow> real" where
  "integrate_lorentzian a b mu fwhm =
     (let gamma = fwhm / 2 in (arctan ((b - mu) / gamma) - arctan ((a - mu) / gamma)) / pi)"

subsection \<open>Profiles\<close>

text \<open>src/util.py, lines 104-123.\<close>

definition get_lorentzian :: "vec \<Rightarrow> real \<Rightarrow> real \<Rightarrow> real \<Rightarrow> real \<Rightarrow> real \<Rightarrow> vec" where
  "get_lorentzian x mu fwhm amp continuum_amp continuum_slope =
     (let gamma = fwhm / 2 in
      map (\<lambda>xi. amp * gamma / ((xi - mu) ^ 2 + gamma ^ 2) / pi
                 + continuum_amp + (xi - np_mean x) * continuum_slope) x)"

text \<open>src/util.py, lines 126-160.\<close>

definition get_gaussian :: "vec \<Rightarrow> real \<Rightarrow> real \<Rightarrow> real \<Rightarrow> real \<Rightarrow> real \<Rightarrow> vec" where
  "get_gaussian x mu fwhm gaussian_amp continuum_amp continuum_slope =
     (let sigma = fwhm / 2.355 in
      map (\<lambda>xi. gaussian_amp * exp (- ((xi - mu) ^ 2) / (2 * sigma ^ 2))
                 + continuum_amp + (xi - np_mean x) * continuum_slope) x)"

text \<open>src/util.py, lines 163-195.\<close>

definition get_voigt ::
  "(real \<Rightarrow> real \<Rightarrow> real \<Rightarrow> real) \<Rightarrow> vec \<Rightarrow> real \<Rightarrow> real \<Rightarrow> real \<Rightarrow> real \<Rightarrow> real \<Rightarrow> real \<Rightarrow> vec" where
  "get_voigt voigt_profile x mu fwhm gamma amp continuum_amp continuum_slope =
     (let sigma = fwhm / 2.355 in
      map (\<lambda>xi. amp * voigt_profile (xi - mu) sigma gamma
                 + continuum_amp + (xi - np_mean x) * continuum_slope) x)"

subsection \<open>Pixel-integrated profiles\<close>

text \<open>
  src/util.py, lines 198-228. \<open>x[1] - x[0]\<close> raises IndexError on fewer than two samples.
\<close>

definition get_pixel_integrated_gaussian ::
  "(real \<Rightarrow> real) \<Rightarrow> vec \<Rightarrow> real \<Rightarrow> real \<Rightarrow> real \<Rightarrow> real \<Rightarrow> real \<Rightarrow> error + vec" where
  "get_pixel_integrated_gaussian erf x mu fwhm gaussian_amp continuum_amp continuum_slope =
     (if length x < 2 then Inl IndexError
      else
        let lambda_diff = x ! 1 - x ! 0 in
        Inr (map (\<lambda>xi. gaussian_amp
                          * integrate_gaussian erf (xi - lambda_diff / 2) (xi + lambda_diff / 2) mu fwhm
                        + continuum_amp + (xi - np_mean x) * continuum_slope) x))"

text \<open>src/util.py, lines 231-265.\<close>

definition get_pixel_integrated_voigt ::
  "((real \<Rightarrow> real) \<Rightarrow> real \<Rightarrow> real \<Rightarrow> real) \<Rightarrow> (real \<Rightarrow> real \<Rightarrow> real \<Rightarrow> real)
     \<Rightarrow> vec \<Rightarrow> real \<Rightarrow> real \<Rightarrow> real \<Rightarrow> real \<Rightarrow> real \<Rightarrow> real \<Rightarrow> error + vec" where
  "get_pixel_integrated_voigt quad voigt_profile x mu fwhm gamma amp continuum_amp continuum_slope =
     (if length x < 2 then Inl IndexError
      else
        let lambda_diff = x ! 1 - x ! 0;
            integrated_voigt =
              map (\<lambda>v. amp * v)
                (integrate_voigt quad voigt_profile
                   (map (\<lambda>xi. xi - lambda_diff / 2) x) (map (\<lambda>xi. xi + lambda_diff / 2) x)
                   mu fwhm gamma)
        in Inr (map2 (\<lambda>v xi. v + continuum_amp + (xi - np_mean x) * continuum_slope)
                  integrated_voigt x))"

text \<open>src/util.py, lines 268-299.\<close>

definition get_pixel_integrated_lorentzian ::
  "vec \<Rightarrow> real \<Rightarrow> real \<Rightarrow> real \<Rightarrow> real \<Rightarrow> real \<Rightarrow> error + vec" where
  "get_pixel_integrated_lorentzian x mu fwhm amp continuum_amp continuum_slope =
     (if length x < 2 then Inl IndexError
      else
        let lambda_diff = x ! 1 - x ! 0 in
        Inr (map (\<lambda>xi. amp
                          * integrate_lorentzian (xi - lambda_diff / 2) (xi + lambda_diff / 2) mu fwhm
                        + continuum_amp + (xi - np_mean x) * continuum_slope) x))"

text \<open>src/util.py, lines 302-360.\<close>

definition get_spectra_model ::
  "(real \<Rightarrow> real) \<Rightarrow> ((real \<Rightarrow> real) \<Rightarrow> real \<Rightarrow> real \<Rightarrow> real) \<Rightarrow> (real \<Rightarrow> real \<Rightarrow> real \<Rightarrow> real)
     \<Rightarrow> vec \<Rightarrow> real \<Rightarrow> real \<Rightarrow> real \<Rightarrow> real \<Rightarrow> real \<Rightarrow> string \<Rightarrow> real \<Rightarrow> error + vec" where
  "get_spectra_model erf quad voigt_profile x mu fwhm gaussian_amp continuum_amp continuum_slope
       line_type voigt_gamma =
     (if line_type = ''gaussian'' then
        get_pixel_integrated_gaussian erf x mu fwhm gaussian_amp continuum_amp continuum_slope
      else if line_type = ''voigt'' then
        get_pixel_integrated_voigt quad voigt_profile x mu fwhm voigt_gamma
          gaussian_amp continuum_amp continuum_slope
      else if line_type = ''lorentzian'' then
        get_pixel_integrated_lorentzian x mu fwhm gaussian_amp continuum_amp continuum_slope
      else Inl (ValueError (''Unknown line type: '' @ line_type)))"

subsection \<open>Segment extraction\<close>

text \<open>
  src/util.py, lines 493-508. \<open>selected\<close> is the boolean array
  \<open>(wavelengths > start) & (wavelengths < end)\<close>, which the source writes out three times.
\<close>

definition get_spectra_cuts ::
  "real \<Rightarrow> real \<Rightarrow> vec \<Rightarrow> vec \<Rightarrow> vec \<Rightarrow> error + vec \<times> vec \<times> vec" where
  "get_spectra_cuts start end wavelengths spectra_1d noise_1d =
     (let selected = map (\<lambda>w. w > start \<and> w < end) wavelengths in
      bind_err (bool_index wavelengths selected) (\<lambda>wavelengths_cut.
      bind_err (bool_index spectra_1d selected) (\<lambda>spectra_cut.
      bind_err (bool_index noise_1d selected) (\<lambda>noise_cut.
      Inr (wavelengths_cut, spectra_cut, noise_cut)))))"

subsection \<open>Solver calls\<close>

text \<open>
  Each call of a library solver is recorded, with the system it was given, in the order of
  the calls. A computation is the list of its solver calls and its result or the exception
  that ended it.
\<close>

datatype solver_call = Lstsq_call matrix vec | Nnls_call matrix vec

type_synonym 'a logged = "solver_call list \<times> (error + 'a)"

definition lift :: "error + 'a \<Rightarrow> 'a logged" where
  "lift r = ([], r)"

definition bind_log :: "'a logged \<Rightarrow> ('a \<Rightarrow> 'b logged) \<Rightarrow> 'b logged" where
  "bind_log m f =
     (case m of
        (l, Inl e) \<Rightarrow> (l, Inl e)
      | (l, Inr x) \<Rightarrow> (case f x of (l', r) \<Rightarrow> (l @ l', r)))"

definition call_lstsq :: "solver \<Rightarrow> matrix \<Rightarrow> vec \<Rightarrow> vec logged" where
  "call_lstsq lstsq A b = ([Lstsq_call A b], lstsq A b)"

definition call_nnls :: "solver \<Rightarrow> matrix \<Rightarrow> vec \<Rightarrow> vec logged" where
  "call_nnls nnls A b = ([Nnls_call A b], nnls A b)"

subsection \<open>The linear fit\<close>

text \<open>
  The \<open>fwhms\<close> argument: a Python float (\<open>isinstance(fwhms, float)\<close> holds; a
  \<open>np.float64\<close> is one), a scalar of any other type (an \<open>int\<close>, a \<open>np.float32\<close>), or a
  sequence of widths.
\<close>

datatype fwhm_arg = FloatScalar real | NonFloatScalar real | PerLine "real list"

text \<open>
  What \<open>zip\<close> iterates over in place of \<open>fwhms\<close> (src/util.py, lines 389-394 and 439-447):
  \<open>np.ones_like(lines, dtype=float) * fwhms\<close> for a float and the sequence itself for a
  sequence. A scalar that is not a float is left as it is, and \<open>zip\<close> raises TypeError on it.
\<close>

definition expand_fwhms :: "fwhm_arg \<Rightarrow> real list \<Rightarrow> error + real list" where
  "expand_fwhms fwhms lines =
     (case fwhms of
        FloatScalar f \<Rightarrow> Inr (map (\<lambda>one. one * f) (replicate (length lines) 1))
      | NonFloatScalar v \<Rightarrow> Inl TypeError
      | PerLine fs \<Rightarrow> Inr fs)"

text \<open>src/util.py, lines 394-399: the loop over \<open>zip(fwhms, lines)\<close>.\<close>

fun line_model_loop ::
  "(real \<Rightarrow> real) \<Rightarrow> ((real \<Rightarrow> real) \<Rightarrow> real \<Rightarrow> real \<Rightarrow> real) \<Rightarrow> (real \<Rightarrow> real \<Rightarrow> real \<Rightarrow> real)
     \<Rightarrow> real \<Rightarrow> vec \<Rightarrow> string \<Rightarrow> real \<Rightarrow> (real \<times> real) list \<Rightarrow> error + vec list" where
  "line_model_loop erf quad voigt_profile velocity wavelengths line_type voigt_gamma [] = Inr []"
| "line_model_loop erf quad voigt_profile velocity wavelengths line_type voigt_gamma
       ((fwhm, line) # rest) =
     (let mu = line * (1 + velocity / light_speed) in
      bind_err (get_spectra_model erf quad voigt_profile wavelengths mu fwhm 1 0 0
                  line_type voigt_gamma) (\<lambda>line_model.
      bind_err (line_model_loop erf quad voigt_profile velocity wavelengths line_type
                  voigt_gamma rest) (\<lambda>line_models.
      Inr (line_model # line_models))))"

text \<open>
  src/util.py, lines 389-402: the list \<open>line_models\<close> as it stands before the design
  matrix is formed. \<open>line_model\<close> is the loop's last model; it is unbound when the loop
  never ran.
\<close>

definition line_models ::
  "(real \<Rightarrow> real) \<Rightarrow> ((real \<Rightarrow> real) \<Rightarrow> real \<Rightarrow> real \<Rightarrow> real) \<Rightarrow> (real \<Rightarrow> real \<Rightarrow> real \<Rightarrow> real)
     \<Rightarrow> real \<Rightarrow> fwhm_arg \<Rightarrow> vec \<Rightarrow> real list \<Rightarrow> string \<Rightarrow> real \<Rightarrow> error + vec list" where
  "line_models erf quad voigt_profile velocity fwhms wavelengths lines line_type voigt_gamma =
     bind_err (expand_fwhms fwhms lines) (\<lambda>fwhms.
     bind_err (line_model_loop erf quad voigt_profile velocity wavelengths line_type voigt_gamma
                 (zip fwhms lines)) (\<lambda>ms.
       if ms = [] then Inl UnboundLocalError
       else
         let line_model = last ms in
         Inr (ms @ [map (\<lambda>v. 1) line_model, map real [0..<length line_model]])))"

text \<open>The value returned: \<open>line_model\<close>, or \<open>line_model, coeffs\<close> when \<open>get_amp\<close> is set.\<close>

datatype fit_result = Model vec | ModelAmp vec vec

text \<open>
  src/util.py, lines 412-416: the \<open>try\<close> block. Only \<open>LinAlgError\<close> is caught; any other
  exception of the least-squares solve propagates.
\<close>

definition lstsq_except_nnls :: "solver \<Rightarrow> solver \<Rightarrow> matrix \<Rightarrow> vec \<Rightarrow> vec logged" where
  "lstsq_except_nnls lstsq nnls A_weighted b_weighted =
     (case call_lstsq lstsq A_weighted b_weighted of
        (l, Inl LinAlgError) \<Rightarrow>
          (case call_nnls nnls A_weighted b_weighted of (l', r) \<Rightarrow> (l @ l', r))
      | (l, r) \<Rightarrow> (l, r))"

text \<open>src/util.py, lines 404-423: the weighted solve on the list of model vectors.\<close>

definition solve_weighted ::
  "solver \<Rightarrow> solver \<Rightarrow> vec list \<Rightarrow> vec \<Rightarrow> vec \<Rightarrow> bool \<Rightarrow> fit_result logged" where
  "solve_weighted lstsq nnls models spectra noise get_amp =
     bind_log (lift (np_array_T models)) (\<lambda>A.
       let b = spectra;
           w = map (\<lambda>n. 1 / n ^ 2) noise
       in
       bind_log (lift (scale_rows A (map sqrt w))) (\<lambda>A_weighted.
       bind_log (lift (np_mul b (map sqrt w))) (\<lambda>b_weighted.
       bind_log (lstsq_except_nnls lstsq nnls A_weighted b_weighted) (\<lambda>coeffs.
       bind_log (lift (matvec A coeffs)) (\<lambda>line_model.
       lift (Inr (if get_amp then ModelAmp line_model coeffs else Model line_model)))))))"

text \<open>src/util.py, lines 363-423.\<close>

definition best_linear_fit_model ::
  "solver \<Rightarrow> solver \<Rightarrow> (real \<Rightarrow> real) \<Rightarrow> ((real \<Rightarrow> real) \<Rightarrow> real \<Rightarrow> real \<Rightarrow> real)
     \<Rightarrow> (real \<Rightarrow> real \<Rightarrow> real \<Rightarrow> real)
     \<Rightarrow> real \<Rightarrow> fwhm_arg \<Rightarrow> vec \<Rightarrow> vec \<Rightarrow> vec \<Rightarrow> real list \<Rightarrow> string \<Rightarrow> real \<Rightarrow> bool
     \<Rightarrow> fit_result logged" where
  "best_linear_fit_model lstsq nnls erf quad voigt_profile
       velocity fwhms wavelengths spectra noise lines line_type voigt_gamma get_amp =
     bind_log (lift (line_models erf quad voigt_profile velocity fwhms wavelengths lines
                       line_type voigt_gamma)) (\<lambda>models.
       solve_weighted lstsq nnls models spectra noise get_amp)"

subsection \<open>The fit of two spectra\<close>

text \<open>
  src/util.py, lines 447-456: the loop over \<open>zip(fwhms_1, fwhms_2, lines)\<close>;
  \<open>get_spectra_model\<close> is called with its default line type and Voigt width.
\<close>

fun simultaneous_loop ::
  "(real \<Rightarrow> real) \<Rightarrow> ((real \<Rightarrow> real) \<Rightarrow> real \<Rightarrow> real \<Rightarrow> real) \<Rightarrow> (real \<Rightarrow> real \<Rightarrow> real \<Rightarrow> real)
     \<Rightarrow> real \<Rightarrow> real \<Rightarrow> vec \<Rightarrow> vec \<Rightarrow> (real \<times> real \<times> real) list
     \<Rightarrow> error + vec list \<times> vec list" where
  "simultaneous_loop erf quad voigt_profile velocity_1 velocity_2 wavelengths_1 wavelengths_2 [] =
     Inr ([], [])"
| "simultaneous_loop erf quad voigt_profile velocity_1 velocity_2 wavelengths_1 wavelengths_2
       ((fwhm_1, fwhm_2, line) # rest) =
     (let mu_1 = line * (1 + velocity_1 / light_speed) in
      bind_err (get_spectra_model erf quad voigt_profile wavelengths_1 mu_1 fwhm_1 1 0 0
                  ''gaussian'' 1) (\<lambda>line_model_1.
      let mu_2 = line * (1 + velocity_2 / light_speed) in
      bind_err (get_spectra_model erf quad voigt_profile wavelengths_2 mu_2 fwhm_2 1 0 0
                  ''gaussian'' 1) (\<lambda>line_model_2.
      bind_err (simultaneous_loop erf quad voigt_profile velocity_1 velocity_2
                  wavelengths_1 wavelengths_2 rest) (\<lambda>(line_models_1, line_models_2).
      Inr (line_model_1 # line_models_1, line_model_2 # line_models_2)))))"

text \<open>
  src/util.py, lines 426-490. \<open>coeffs[:-2]\<close> is \<open>take (length coeffs - 2) coeffs\<close>;
  \<open>np.vstack((u, v, w)).T\<close> is the matrix with the columns \<open>u\<close>, \<open>v\<close>, \<open>w\<close>.
\<close>

definition best_linear_fit_model_simultaneous ::
  "solver \<Rightarrow> (real \<Rightarrow> real) \<Rightarrow> ((real \<Rightarrow> real) \<Rightarrow> real \<Rightarrow> real \<Rightarrow> real)
     \<Rightarrow> (real \<Rightarrow> real \<Rightarrow> real \<Rightarrow> real)
     \<Rightarrow> real \<Rightarrow> fwhm_arg \<Rightarrow> real \<Rightarrow> fwhm_arg \<Rightarrow> vec \<Rightarrow> vec \<Rightarrow> vec \<Rightarrow> vec \<Rightarrow> vec \<Rightarrow> vec \<Rightarrow> real list
     \<Rightarrow> (vec \<times> vec) logged" where
  "best_linear_fit_model_simultaneous nnls erf quad voigt_profile
       velocity_1 fwhms_1 velocity_2 fwhms_2 wavelengths_1 spectra_1 noise_1
       wavelengths_2 spectra_2 noise_2 lines =
     bind_log (lift (expand_fwhms fwhms_1 lines)) (\<lambda>fwhms_1.
     bind_log (lift (expand_fwhms fwhms_2 lines)) (\<lambda>fwhms_2.
     bind_log (lift (simultaneous_loop erf quad voigt_profile velocity_1 velocity_2
                       wavelengths_1 wavelengths_2 (zip fwhms_1 (zip fwhms_2 lines))))
       (\<lambda>(ms_1, line_models_2).
       if ms_1 = [] then lift (Inl UnboundLocalError)
       else
         let last_model_1 = last ms_1;
             line_models_1 =
               ms_1 @ [map (\<lambda>v. 1) last_model_1, map real [0..<length last_model_1]]
         in
         bind_log (lift (np_array_T line_models_1)) (\<lambda>A.
         let b = spectra_1;
             w = map (\<lambda>n. 1 / n ^ 2) noise_1
         in
         bind_log (lift (scale_rows A (map sqrt w))) (\<lambda>A_weighted.
         bind_log (lift (np_mul b (map sqrt w))) (\<lambda>b_weighted.
         bind_log (call_nnls nnls A_weighted b_weighted) (\<lambda>coeffs.
         bind_log (lift (matvec A coeffs)) (\<lambda>line_model_1.
         bind_log (lift (np_array_T line_models_2)) (\<lambda>M_2.
         bind_log (lift (matvec M_2 (take (length coeffs - 2) coeffs))) (\<lambda>spec_model_2.
         bind_log (lift (np_array_T
                           [spec_model_2, map (\<lambda>v. 1) spec_model_2,
                            map real [0..<length spec_model_2]])) (\<lambda>A_2.
         let b_2 = spectra_2;
             w_2 = map (\<lambda>n. 1 / n ^ 2) noise_2
         in
         bind_log (lift (scale_rows A_2 (map sqrt w_2))) (\<lambda>A_weighted_2.
         bind_log (lift (np_mul b_2 (map sqrt w_2))) (\<lambda>b_weighted_2.
         bind_log (call_nnls nnls A_weighted_2 b_weighted_2) (\<lambda>coeffs_2.
         bind_log (lift (matvec A_2 coeffs_2)) (\<lambda>line_model_2.
         lift (Inr (line_model_1, line_model_2)))))))))))))))))"

section \<open>Properties of the line catalog\<close>

lemmas lib_defs =
  G140_line_library_def G140_extended_lines_def G235_line_library_def G395_line_library_def

lemmas specs_defs = get_spectra_slice_specs_def bind_err_def pop_def Let_def

lemma upper_lit [simp]:
  "upper ''G140'' = ''G140''" "upper ''G235'' = ''G235''" "upper ''G395'' = ''G395''"
  by (simp_all add: upper_def upper_char_def)

text \<open>\<open>str_contains s sub\<close> holds exactly when \<open>sub\<close> occurs in \<open>s\<close> as a contiguous piece.\<close>

lemma is_prefix_iff: "is_prefix xs ys \<longleftrightarrow> (\<exists>zs. ys = xs @ zs)"
  by (induction xs ys rule: is_prefix.induct) auto

lemma str_contains_iff: "str_contains s sub \<longleftrightarrow> (\<exists>ps ss. s = ps @ sub @ ss)"
proof (induction s)
  case Nil
  then show ?case by (auto simp: is_prefix_iff)
next
  case (Cons c cs)
  show ?case
  proof
    assume "str_contains (c # cs) sub"
    then consider "is_prefix sub (c # cs)" | "str_contains cs sub" by auto
    then show "\<exists>ps ss. c # cs = ps @ sub @ ss"
    proof cases
      case 1
      then obtain zs where "c # cs = sub @ zs" by (auto simp: is_prefix_iff)
      then have "c # cs = [] @ sub @ zs" by simp
      then show ?thesis by blast
    next
      case 2
      then obtain ps ss where "cs = ps @ sub @ ss" using Cons.IH by blast
      then have "c # cs = (c # ps) @ sub @ ss" by simp
      then show ?thesis by blast
    qed
  next
    assume "\<exists>ps ss. c # cs = ps @ sub @ ss"
    then obtain ps ss where eq: "c # cs = ps @ sub @ ss" by blast
    show "str_contains (c # cs) sub"
    proof (cases ps)
      case Nil
      with eq have "is_prefix sub (c # cs)" by (auto simp: is_prefix_iff)
      then show ?thesis by simp
    next
      case (Cons p ps')
      with eq have "cs = ps' @ sub @ ss" by simp
      then have "str_contains cs sub" using Cons.IH by blast
      then show ?thesis by simp
    qed
  qed
qed

text \<open>
  C6, as the code has it. For the disperser "G140" without extension, mode "FS" returns the
  base list without its last group and mode "MSA" returns the base list without its last
  and its second group. The base list has 6 groups, so these are 5 and 4 groups.
\<close>

theorem G140_group_counts:
  "get_spectra_slice_specs ''G140'' ''FS'' False = Inr (butlast G140_line_library)
   \<and> length (butlast G140_line_library) = 5
   \<and> get_spectra_slice_specs ''G140'' ''MSA'' False
       = Inr (hd G140_line_library # drop 2 (butlast G140_line_library))
   \<and> length (hd G140_line_library # drop 2 (butlast G140_line_library)) = 4
   \<and> length G140_line_library = 6"
  by (simp add: specs_defs G140_line_library_def)

text \<open>
  C6, as stated (6 groups in mode "FS", out of 7), fails: the list returned for "G140" in
  mode "FS" does not have 6 groups, and the base list does not have 7.
\<close>

theorem G140_group_counts_counterexample:
  "get_spectra_slice_specs ''G140'' ''FS'' False = Inr (butlast G140_line_library)
   \<and> length (butlast G140_line_library) \<noteq> 6
   \<and> length G140_line_library \<noteq> 7"
  by (simp add: specs_defs G140_line_library_def)

text \<open>
  C8. A disperser whose upper-cased name contains none of "G140", "G235", "G395" makes the
  lookup fail with a ValueError, whatever the mode and the extension flag.
\<close>

theorem unrecognized_disperser_fails:
  assumes "\<not> str_contains (upper disperser) ''G140''"
    and "\<not> str_contains (upper disperser) ''G235''"
    and "\<not> str_contains (upper disperser) ''G395''"
  shows "get_spectra_slice_specs disperser mode do_extend
           = Inl (ValueError (''Disperser '' @ upper disperser @ '' not recognized.''))"
  using assms by (simp add: get_spectra_slice_specs_def Let_def)

theorem unrecognized_disperser_fails_witness:
  "\<not> str_contains (upper ''prism'') ''G140''
   \<and> \<not> str_contains (upper ''prism'') ''G235''
   \<and> \<not> str_contains (upper ''prism'') ''G395''
   \<and> get_spectra_slice_specs ''prism'' ''MSA'' False
       = Inl (ValueError ''Disperser PRISM not recognized.'')"
proof -
  have u: "upper ''prism'' = ''PRISM''" by code_simp
  have h: "\<not> str_contains (upper ''prism'') ''G140''" "\<not> str_contains (upper ''prism'') ''G235''"
    "\<not> str_contains (upper ''prism'') ''G395''" by (simp_all add: u)
  show ?thesis using h unrecognized_disperser_fails [OF h, of "''MSA''" False] by (simp add: u)
qed

text \<open>Conversely, every name that contains one of the three is served a list.\<close>

lemma recognized_disperser_returns:
  assumes "str_contains (upper disperser) ''G140'' \<or> str_contains (upper disperser) ''G235''
           \<or> str_contains (upper disperser) ''G395''"
  shows "\<exists>gs. get_spectra_slice_specs disperser mode do_extend = Inr gs"
  using assms by (auto simp add: specs_defs lib_defs)

text \<open>
  C9, as the code has it. For a G140 disperser the list returned with the extension holds
  both additional groups, and neither is in the list returned without it. For every other
  disperser the extension flag changes nothing.
\<close>

theorem extend_only_G140:
  "(str_contains (upper disperser) ''G140'' \<longrightarrow>
      (\<exists>gs gs'. get_spectra_slice_specs disperser mode True = Inr gs
         \<and> get_spectra_slice_specs disperser mode False = Inr gs'
         \<and> set G140_extended_lines \<subseteq> set gs
         \<and> set G140_extended_lines \<inter> set gs' = {}
         \<and> G140_extended_lines \<noteq> []))
   \<and> (\<not> str_contains (upper disperser) ''G140'' \<longrightarrow>
        get_spectra_slice_specs disperser mode True = get_spectra_slice_specs disperser mode False)"
  by (simp add: specs_defs lib_defs)

theorem extend_only_G140_witness:
  "str_contains (upper ''g140m'') ''G140''
   \<and> (\<exists>gs gs'. get_spectra_slice_specs ''g140m'' ''MSA'' True = Inr gs
         \<and> get_spectra_slice_specs ''g140m'' ''MSA'' False = Inr gs'
         \<and> set G140_extended_lines \<subseteq> set gs
         \<and> set G140_extended_lines \<inter> set gs' = {}
         \<and> G140_extended_lines \<noteq> [])
   \<and> \<not> str_contains (upper ''g395h'') ''G140''
   \<and> get_spectra_slice_specs ''g395h'' ''MSA'' True = get_spectra_slice_specs ''g395h'' ''MSA'' False"
proof -
  have u: "upper ''g140m'' = ''G140M''" "upper ''g395h'' = ''G395H''" by code_simp+
  have h1: "str_contains (upper ''g140m'') ''G140''" by (simp add: u)
  have h2: "\<not> str_contains (upper ''g395h'') ''G140''" by (simp add: u)
  show ?thesis
    using h1 h2 extend_only_G140 [of "''g140m''" "''MSA''"] extend_only_G140 [of "''g395h''" "''MSA''"]
    by blast
qed

text \<open>
  C9, as stated for every recognized disperser, fails: for "G235" in mode "FS" the list
  returned with the extension is the list returned without it.
\<close>

theorem extend_G235_counterexample:
  "get_spectra_slice_specs ''G235'' ''FS'' True = Inr (butlast (tl G235_line_library))
   \<and> get_spectra_slice_specs ''G235'' ''FS'' False = Inr (butlast (tl G235_line_library))"
  by (simp add: specs_defs G235_line_library_def)

text \<open>
  C10. For a recognized disperser, a mode other than "FS" and "MSA" and no extension, the
  lookup returns the disperser's whole list, which is strictly longer than the list of
  either recognized mode.
\<close>

theorem unrecognized_mode_full_library:
  assumes "mode \<noteq> ''FS''" and "mode \<noteq> ''MSA''"
  shows "(str_contains (upper disperser) ''G140'' \<longrightarrow>
            get_spectra_slice_specs disperser mode False = Inr G140_line_library
            \<and> (\<forall>m \<in> {''FS'', ''MSA''}. \<exists>gs. get_spectra_slice_specs disperser m False = Inr gs
                  \<and> length gs < length G140_line_library))
       \<and> (\<not> str_contains (upper disperser) ''G140'' \<and> str_contains (upper disperser) ''G235'' \<longrightarrow>
            get_spectra_slice_specs disperser mode False = Inr G235_line_library
            \<and> (\<forall>m \<in> {''FS'', ''MSA''}. \<exists>gs. get_spectra_slice_specs disperser m False = Inr gs
                  \<and> length gs < length G235_line_library))
       \<and> (\<not> str_contains (upper disperser) ''G140'' \<and> \<not> str_contains (upper disperser) ''G235''
            \<and> str_contains (upper disperser) ''G395'' \<longrightarrow>
            get_spectra_slice_specs disperser mode False = Inr G395_line_library
            \<and> (\<forall>m \<in> {''FS'', ''MSA''}. \<exists>gs. get_spectra_slice_specs disperser m False = Inr gs
                  \<and> length gs < length G395_line_library))"
  using assms by (simp add: specs_defs lib_defs)

theorem unrecognized_mode_full_library_witness:
  "''IFU'' \<noteq> ''FS'' \<and> ''IFU'' \<noteq> ''MSA''
   \<and> str_contains (upper ''G140'') ''G140''
   \<and> get_spectra_slice_specs ''G140'' ''IFU'' False = Inr G140_line_library
   \<and> (\<exists>gs. get_spectra_slice_specs ''G140'' ''FS'' False = Inr gs
         \<and> length gs < length G140_line_library)
   \<and> (\<exists>gs. get_spectra_slice_specs ''G140'' ''MSA'' False = Inr gs
         \<and> length gs < length G140_line_library)
   \<and> \<not> str_contains (upper ''G235'') ''G140'' \<and> str_contains (upper ''G235'') ''G235''
   \<and> get_spectra_slice_specs ''G235'' ''IFU'' False = Inr G235_line_library
   \<and> (\<exists>gs. get_spectra_slice_specs ''G235'' ''FS'' False = Inr gs
         \<and> length gs < length G235_line_library)
   \<and> (\<exists>gs. get_spectra_slice_specs ''G235'' ''MSA'' False = Inr gs
         \<and> length gs < length G235_line_library)
   \<and> \<not> str_contains (upper ''G395'') ''G140'' \<and> \<not> str_contains (upper ''G395'') ''G235''
   \<and> str_contains (upper ''G395'') ''G395''
   \<and> get_spectra_slice_specs ''G395'' ''IFU'' False = Inr G395_line_library
   \<and> (\<exists>gs. get_spectra_slice_specs ''G395'' ''FS'' False = Inr gs
         \<and> length gs < length G395_line_library)
   \<and> (\<exists>gs. get_spectra_slice_specs ''G395'' ''MSA'' False = Inr gs
         \<and> length gs < length G395_line_library)"
proof -
  have m: "''IFU'' \<noteq> ''FS''" "''IFU'' \<noteq> ''MSA''" by simp_all
  have d1: "str_contains (upper ''G140'') ''G140''" by simp
  have d2: "\<not> str_contains (upper ''G235'') ''G140''" "str_contains (upper ''G235'') ''G235''"
    by simp_all
  have d3: "\<not> str_contains (upper ''G395'') ''G140''" "\<not> str_contains (upper ''G395'') ''G235''"
    "str_contains (upper ''G395'') ''G395''" by simp_all
  have a: "get_spectra_slice_specs ''G140'' ''IFU'' False = Inr G140_line_library
      \<and> (\<exists>gs. get_spectra_slice_specs ''G140'' ''FS'' False = Inr gs
            \<and> length gs < length G140_line_library)
      \<and> (\<exists>gs. get_spectra_slice_specs ''G140'' ''MSA'' False = Inr gs
            \<and> length gs < length G140_line_library)"
    using unrecognized_mode_full_library [OF m, of "''G140''"] d1 by (intro conjI) simp_all
  have b: "get_spectra_slice_specs ''G235'' ''IFU'' False = Inr G235_line_library
      \<and> (\<exists>gs. get_spectra_slice_specs ''G235'' ''FS'' False = Inr gs
            \<and> length gs < length G235_line_library)
      \<and> (\<exists>gs. get_spectra_slice_specs ''G235'' ''MSA'' False = Inr gs
            \<and> length gs < length G235_line_library)"
    using unrecognized_mode_full_library [OF m, of "''G235''"] d2 by (intro conjI) simp_all
  have c: "get_spectra_slice_specs ''G395'' ''IFU'' False = Inr G395_line_library
      \<and> (\<exists>gs. get_spectra_slice_specs ''G395'' ''FS'' False = Inr gs
            \<and> length gs < length G395_line_library)
      \<and> (\<exists>gs. get_spectra_slice_specs ''G395'' ''MSA'' False = Inr gs
            \<and> length gs < length G395_line_library)"
    using unrecognized_mode_full_library [OF m, of "''G395''"] d3 by (intro conjI) simp_all
  show ?thesis using m d1 d2 d3 a b c by (intro conjI) simp_all
qed

section \<open>Properties of the segment extractor\<close>

lemma bool_index_filter:
  "length arr = length ws \<Longrightarrow>
   bool_index arr (map P ws) = Inr (map fst (filter (\<lambda>(a, w). P w) (zip arr ws)))"
proof -
  assume len: "length arr = length ws"
  have "map fst (filter snd (zip arr (map P ws))) = map fst (filter (\<lambda>(a, w). P w) (zip arr ws))"
    using len by (induction arr ws rule: list_induct2) auto
  then show ?thesis using len by (simp add: bool_index_def)
qed

text \<open>
  C5. On three arrays of one length, the cut returns three arrays of one length: the
  triples (wavelength, flux, noise) whose wavelength lies strictly between \<open>start\<close> and
  \<open>end\<close>, in their original order and with their pairing kept; the wavelengths returned are
  the filtered wavelengths, and when no wavelength qualifies the three arrays are empty.
\<close>

theorem get_spectra_cuts_selects:
  assumes "length spectra_1d = length wavelengths"
    and "length noise_1d = length wavelengths"
  shows "\<exists>wc sc nc.
           get_spectra_cuts start end wavelengths spectra_1d noise_1d = Inr (wc, sc, nc)
           \<and> length sc = length wc \<and> length nc = length wc
           \<and> zip wc (zip sc nc)
               = filter (\<lambda>(w, s, n). start < w \<and> w < end) (zip wavelengths (zip spectra_1d noise_1d))
           \<and> wc = filter (\<lambda>w. start < w \<and> w < end) wavelengths
           \<and> ((\<forall>w \<in> set wavelengths. \<not> (start < w \<and> w < end)) \<longrightarrow> wc = [] \<and> sc = [] \<and> nc = [])"
proof -
  let ?P = "\<lambda>w. start < w \<and> w < end"
  let ?wc = "map fst (filter (\<lambda>(a, w). ?P w) (zip wavelengths wavelengths))"
  let ?sc = "map fst (filter (\<lambda>(a, w). ?P w) (zip spectra_1d wavelengths))"
  let ?nc = "map fst (filter (\<lambda>(a, w). ?P w) (zip noise_1d wavelengths))"
  have res: "get_spectra_cuts start end wavelengths spectra_1d noise_1d = Inr (?wc, ?sc, ?nc)"
    using assms by (simp add: get_spectra_cuts_def bind_err_def bool_index_filter)
  have wc: "?wc = filter ?P wavelengths"
    by (induction wavelengths) auto
  have gen: "length s = length w \<Longrightarrow> length n = length w \<Longrightarrow>
      zip (filter ?P w) (zip (map fst (filter (\<lambda>(a, w). ?P w) (zip s w)))
                             (map fst (filter (\<lambda>(a, w). ?P w) (zip n w))))
       = filter (\<lambda>(w, s, n). ?P w) (zip w (zip s n))
      \<and> length (map fst (filter (\<lambda>(a, w). ?P w) (zip s w))) = length (filter ?P w)
      \<and> length (map fst (filter (\<lambda>(a, w). ?P w) (zip n w))) = length (filter ?P w)"
    for s n :: "real list" and w :: "real list"
  proof -
    assume "length s = length w" "length n = length w"
    then have "length w = length s" "length s = length n" by simp_all
    then show ?thesis by (induction w s n rule: list_induct3) auto
  qed
  have emp: "(\<forall>w \<in> set wavelengths. \<not> ?P w) \<longrightarrow> ?wc = [] \<and> ?sc = [] \<and> ?nc = []"
    by (auto simp: filter_empty_conv dest: set_zip_rightD)
  show ?thesis
    using res wc gen [OF assms] emp by (intro exI [of _ ?wc] exI [of _ ?sc] exI [of _ ?nc]) simp
qed

theorem get_spectra_cuts_selects_witness:
  "length [10, 20, 30, 40 :: real] = length [1, 2, 3, 4 :: real]
   \<and> length [5, 6, 7, 8 :: real] = length [1, 2, 3, 4 :: real]
   \<and> (\<exists>wc sc nc.
         get_spectra_cuts 1 4 [1, 2, 3, 4] [10, 20, 30, 40] [5, 6, 7, 8] = Inr (wc, sc, nc)
         \<and> length sc = length wc \<and> length nc = length wc
         \<and> zip wc (zip sc nc) = [(2, 20, 6), (3, 30, 7)])
   \<and> get_spectra_cuts 1 4 [1, 2, 3, 4] [10, 20, 30, 40] [5, 6, 7, 8] = Inr ([2, 3], [20, 30], [6, 7])
   \<and> get_spectra_cuts 4 9 [1, 2, 3, 4] [10, 20, 30, 40] [5, 6, 7, 8] = Inr ([], [], [])"
proof -
  have h: "length [10, 20, 30, 40 :: real] = length [1, 2, 3, 4 :: real]"
    "length [5, 6, 7, 8 :: real] = length [1, 2, 3, 4 :: real]" by simp_all
  have a: "\<exists>wc sc nc.
         get_spectra_cuts 1 4 [1, 2, 3, 4] [10, 20, 30, 40] [5, 6, 7, 8] = Inr (wc, sc, nc)
         \<and> length sc = length wc \<and> length nc = length wc
         \<and> zip wc (zip sc nc) = [(2, 20, 6), (3, 30, 7)]"
    using get_spectra_cuts_selects [OF h, of 1 4] by auto
  have b: "get_spectra_cuts 1 4 [1, 2, 3, 4] [10, 20, 30, 40] [5, 6, 7, 8] = Inr ([2, 3], [20, 30], [6, 7])"
    "get_spectra_cuts 4 9 [1, 2, 3, 4] [10, 20, 30, 40] [5, 6, 7, 8] = Inr ([], [], [])"
    by (simp_all add: get_spectra_cuts_def bind_err_def bool_index_def)
  show ?thesis using h a b by (intro conjI)
qed

section \<open>Properties of the line shapes\<close>

text \<open>
  C7. For a positive width, swapping the bounds negates the integral of the Gaussian and of
  the Lorentzian, whatever the function \<open>erf\<close> is.
\<close>

theorem integrals_antisymmetric:
  assumes "0 < fwhm"
  shows "integrate_gaussian erf a b mu fwhm = - integrate_gaussian erf b a mu fwhm
       \<and> integrate_lorentzian a b mu fwhm = - integrate_lorentzian b a mu fwhm"
  by (simp add: integrate_gaussian_def integrate_lorentzian_def Let_def algebra_simps
        diff_divide_distrib)

theorem integrals_antisymmetric_witness:
  "(0::real) < 2.355
   \<and> integrate_gaussian erf_series (- 1) 1 0 2.355 = - integrate_gaussian erf_series 1 (- 1) 0 2.355
   \<and> integrate_lorentzian (- 1) 1 0 2.355 = - integrate_lorentzian 1 (- 1) 0 2.355"
proof -
  have h: "(0::real) < 2.355" by simp
  show ?thesis using h integrals_antisymmetric [OF h, of erf_series "- 1" 1 0] by blast
qed

text \<open>The value of each profile at its centre, with amplitude 1 and no continuum.\<close>

lemma get_gaussian_peak: "get_gaussian [mu] mu fwhm 1 0 0 = [1]"
  by (simp add: get_gaussian_def np_mean_def)

lemma get_lorentzian_peak: "0 < fwhm \<Longrightarrow> get_lorentzian [mu] mu fwhm 1 0 0 = [2 / (pi * fwhm)]"
  by (simp add: get_lorentzian_def np_mean_def power2_eq_square)

lemma get_voigt_peak:
  "get_voigt voigt_profile [mu] mu fwhm gamma 1 0 0 = [voigt_profile 0 (fwhm / 2.355) gamma]"
  by (simp add: get_voigt_def np_mean_def)

text \<open>
  C4 at \<open>mu = 0\<close>, \<open>fwhm = 2\<close>: the Lorentzian at its centre is \<open>1 / pi\<close>, which is not 1.
\<close>

theorem get_lorentzian_peak_not_one:
  "get_lorentzian [0] 0 2 1 0 0 = [1 / pi] \<and> 1 / pi \<noteq> (1::real)"
proof -
  have "pi \<noteq> (1::real)" using pi_ge_two by linarith
  then show ?thesis by (simp add: get_lorentzian_def np_mean_def)
qed

section \<open>Properties of the fits\<close>

subsection \<open>Helpers: logged computations and numpy operations on matching shapes\<close>

lemma bind_log_lift_Inr [simp]: "bind_log (lift (Inr x)) f = f x"
  by (simp add: bind_log_def lift_def split: prod.splits)

lemma bind_log_lift_Inl [simp]: "bind_log (lift (Inl e)) f = lift (Inl e)"
  by (simp add: bind_log_def lift_def)

lemma bind_log_call_nnls:
  "bind_log (call_nnls nnls A b) f =
     (case nnls A b of
        Inl e \<Rightarrow> ([Nnls_call A b], Inl e)
      | Inr c \<Rightarrow> (Nnls_call A b # fst (f c), snd (f c)))"
  by (simp add: bind_log_def call_nnls_def split: sum.splits prod.splits)

lemma bind_log_call_nnls_final:
  "bind_log (call_nnls nnls A b) (\<lambda>c. bind_log (lift (g c)) (\<lambda>x. lift (Inr (h x))))
     = ([Nnls_call A b], bind_err (nnls A b) (\<lambda>c. bind_err (g c) (\<lambda>x. Inr (h x))))"
  by (cases "nnls A b")
    (auto simp: bind_log_def call_nnls_def lift_def bind_err_def split: sum.splits)

lemma np_array_T_rect:
  assumes "models \<noteq> []" and "\<forall>m \<in> set models. length m = N"
  shows "np_array_T models = Inr (map (\<lambda>i. map (\<lambda>m. m ! i) models) [0..<N])"
proof -
  obtain c cs where m: "models = c # cs" using assms(1) by (cases models) auto
  then have "length c = N" "list_all (\<lambda>c'. length c' = length c) cs"
    using assms(2) by (auto simp: list_all_iff)
  then show ?thesis by (simp add: np_array_T_def m)
qed

lemma scale_rows_weights:
  "length A = length noise \<Longrightarrow>
   scale_rows A (map sqrt (map (\<lambda>n. 1 / n ^ 2) noise))
     = Inr (map2 (\<lambda>row n. map (\<lambda>a. a * sqrt (1 / n ^ 2)) row) A noise)"
  by (simp add: scale_rows_def zip_map2 case_prod_unfold)

lemma np_mul_weights:
  "length b = length noise \<Longrightarrow>
   np_mul b (map sqrt (map (\<lambda>n. 1 / n ^ 2) noise))
     = Inr (map2 (\<lambda>x n. x * sqrt (1 / n ^ 2)) b noise)"
  by (simp add: np_mul_def zip_map2 case_prod_unfold)

lemma matvec_ok:
  "\<forall>row \<in> set A. length row = length c \<Longrightarrow>
   matvec A c = Inr (map (\<lambda>row. sum_list (map2 (*) row c)) A)"
  by (simp add: matvec_def list_all_iff)

lemma matvec_bad:
  "\<exists>row \<in> set A. length row \<noteq> length c \<Longrightarrow>
   matvec A c = Inl (ValueError ''matmul: size mismatch'')"
  by (auto simp add: matvec_def list_all_iff)

lemma expand_fwhms_ok:
  assumes "case fwhms of FloatScalar f \<Rightarrow> True | NonFloatScalar v \<Rightarrow> False
           | PerLine fs \<Rightarrow> length fs = length lines"
  shows "expand_fwhms fwhms lines
           = Inr (map (\<lambda>j. case fwhms of FloatScalar f \<Rightarrow> f | NonFloatScalar v \<Rightarrow> v
                                | PerLine fs \<Rightarrow> fs ! j) [0..<length lines])"
proof (cases fwhms)
  case (FloatScalar f)
  then show ?thesis by (simp add: expand_fwhms_def map_replicate_const)
next
  case (NonFloatScalar v)
  then show ?thesis using assms by simp
next
  case (PerLine fs)
  then have len: "length fs = length lines" using assms by simp
  have "map (\<lambda>j. fs ! j) [0..<length fs] = fs" by (rule map_nth)
  then have "map (\<lambda>j. fs ! j) [0..<length lines] = fs" unfolding len .
  then show ?thesis using PerLine by (simp add: expand_fwhms_def)
qed

lemma expand_fwhms_non_float: "expand_fwhms (NonFloatScalar v) lines = Inl TypeError"
  by (simp add: expand_fwhms_def)

lemma take_butlast2: "take (length c - 2) c = butlast (butlast c)"
  by (simp add: butlast_conv_take numeral_2_eq_2)

subsection \<open>The list of model vectors\<close>

text \<open>
  The model of one line with amplitude 1 and no continuum, written out: per pixel \<open>x\<close> the
  integral of the profile from \<open>x - d / 2\<close> to \<open>x + d / 2\<close>, \<open>d\<close> the spacing of the first
  two wavelengths.
\<close>

lemma zip_maps_same: "zip (map f xs) (map g xs) = map (\<lambda>x. (f x, g x)) xs"
  by (induction xs) simp_all

lemma map2_map_same: "map2 h (map k xs) xs = map (\<lambda>x. h (k x) x) xs"
  by (induction xs) simp_all

lemma get_spectra_model_unit:
  assumes "2 \<le> length x"
  shows "get_spectra_model erf quad voigt_profile x mu fwhm 1 0 0 line_type voigt_gamma =
     (if line_type = ''gaussian'' then
        Inr (map (\<lambda>xi. fwhm / 2.355 * sqrt (pi / 2)
                    * (erf ((xi + (x ! 1 - x ! 0) / 2 - mu) / (sqrt 2 * (fwhm / 2.355)))
                       - erf ((xi - (x ! 1 - x ! 0) / 2 - mu) / (sqrt 2 * (fwhm / 2.355))))) x)
      else if line_type = ''voigt'' then
        Inr (map (\<lambda>xi. quad (\<lambda>t. voigt_profile t (fwhm / 2.355) voigt_gamma)
                         (xi - (x ! 1 - x ! 0) / 2 - mu) (xi + (x ! 1 - x ! 0) / 2 - mu)) x)
      else if line_type = ''lorentzian'' then
        Inr (map (\<lambda>xi. (arctan ((xi + (x ! 1 - x ! 0) / 2 - mu) / (fwhm / 2))
                        - arctan ((xi - (x ! 1 - x ! 0) / 2 - mu) / (fwhm / 2))) / pi) x)
      else Inl (ValueError (''Unknown line type: '' @ line_type)))"
proof -
  have nl: "\<not> length x < 2" using assms by simp
  have g: "get_pixel_integrated_gaussian erf x mu fwhm 1 0 0 =
        Inr (map (\<lambda>xi. fwhm / 2.355 * sqrt (pi / 2)
                    * (erf ((xi + (x ! 1 - x ! 0) / 2 - mu) / (sqrt 2 * (fwhm / 2.355)))
                       - erf ((xi - (x ! 1 - x ! 0) / 2 - mu) / (sqrt 2 * (fwhm / 2.355))))) x)"
    unfolding get_pixel_integrated_gaussian_def integrate_gaussian_def Let_def if_not_P [OF nl]
    by (simp only: mult_1 add_0_right mult_zero_right)
  have l: "get_pixel_integrated_lorentzian x mu fwhm 1 0 0 =
        Inr (map (\<lambda>xi. (arctan ((xi + (x ! 1 - x ! 0) / 2 - mu) / (fwhm / 2))
                        - arctan ((xi - (x ! 1 - x ! 0) / 2 - mu) / (fwhm / 2))) / pi) x)"
    unfolding get_pixel_integrated_lorentzian_def integrate_lorentzian_def Let_def if_not_P [OF nl]
    by (simp only: mult_1 add_0_right mult_zero_right)
  have v: "get_pixel_integrated_voigt quad voigt_profile x mu fwhm voigt_gamma 1 0 0 =
        Inr (map (\<lambda>xi. quad (\<lambda>t. voigt_profile t (fwhm / 2.355) voigt_gamma)
                         (xi - (x ! 1 - x ! 0) / 2 - mu) (xi + (x ! 1 - x ! 0) / 2 - mu)) x)"
    using assms
    by (simp add: get_pixel_integrated_voigt_def integrate_voigt_def Let_def zip_maps_same
        map2_map_same comp_def)
  show ?thesis by (simp add: get_spectra_model_def g l v)
qed

lemma get_spectra_model_length:
  assumes "2 \<le> length x"
    and "line_type = ''gaussian'' \<or> line_type = ''voigt'' \<or> line_type = ''lorentzian''"
  shows "\<exists>m. get_spectra_model erf quad voigt_profile x mu fwhm amp ca cs line_type vg = Inr m
             \<and> length m = length x"
  using assms
  by (auto simp: get_spectra_model_def get_pixel_integrated_gaussian_def
      get_pixel_integrated_voigt_def get_pixel_integrated_lorentzian_def integrate_voigt_def Let_def)

lemma line_model_loop_ok:
  assumes "2 \<le> length x"
    and "line_type = ''gaussian'' \<or> line_type = ''voigt'' \<or> line_type = ''lorentzian''"
  shows "\<exists>ms. line_model_loop erf quad voigt_profile velocity x line_type vg ps = Inr ms
           \<and> length ms = length ps
           \<and> (\<forall>j < length ps. get_spectra_model erf quad voigt_profile x
                  (snd (ps ! j) * (1 + velocity / light_speed)) (fst (ps ! j)) 1 0 0 line_type vg
                 = Inr (ms ! j))
           \<and> (\<forall>m \<in> set ms. length m = length x)"
proof (induction ps)
  case Nil
  then show ?case by simp
next
  case (Cons p ps)
  obtain fwhm line where p: "p = (fwhm, line)" by (cases p)
  obtain ms where ms: "line_model_loop erf quad voigt_profile velocity x line_type vg ps = Inr ms"
    "length ms = length ps"
    "\<forall>j < length ps. get_spectra_model erf quad voigt_profile x
                  (snd (ps ! j) * (1 + velocity / light_speed)) (fst (ps ! j)) 1 0 0 line_type vg
                 = Inr (ms ! j)"
    "\<forall>m \<in> set ms. length m = length x"
    using Cons.IH by blast
  obtain m where m: "get_spectra_model erf quad voigt_profile x
       (line * (1 + velocity / light_speed)) fwhm 1 0 0 line_type vg = Inr m" "length m = length x"
    using get_spectra_model_length [OF assms] by blast
  have res: "line_model_loop erf quad voigt_profile velocity x line_type vg (p # ps) = Inr (m # ms)"
    using m(1) ms(1) by (simp add: p bind_err_def Let_def)
  have nth: "\<forall>j < length (p # ps). get_spectra_model erf quad voigt_profile x
                  (snd ((p # ps) ! j) * (1 + velocity / light_speed)) (fst ((p # ps) ! j))
                  1 0 0 line_type vg = Inr ((m # ms) ! j)"
  proof (intro allI impI)
    fix j assume "j < length (p # ps)"
    then show "get_spectra_model erf quad voigt_profile x
                  (snd ((p # ps) ! j) * (1 + velocity / light_speed)) (fst ((p # ps) ! j))
                  1 0 0 line_type vg = Inr ((m # ms) ! j)"
      using m(1) ms(3) by (cases j) (simp_all add: p)
  qed
  show ?case using res nth ms(2,4) m(2) by (intro exI [of _ "m # ms"]) simp
qed

text \<open>
  C3, as the code has it. For a non-empty list of \<open>L\<close> rest wavelengths, a grid of \<open>N \<ge> 2\<close>
  wavelengths, one of the three line types and a width given as a Python float or as one
  width per line, the list of model vectors is built without error and has \<open>L + 2\<close>
  vectors of length \<open>N\<close>. The vector of line \<open>j\<close> is the pixel-integrated profile of that
  line type with amplitude 1 and no continuum, centred at
  \<open>mu = lines ! j * (1 + velocity / 299792.458)\<close>: at each wavelength \<open>x\<close> the integral of the
  profile from \<open>x - d / 2\<close> to \<open>x + d / 2\<close>, where \<open>d\<close> is the spacing of the first two
  wavelengths. The last two vectors are the constant 1 and the ramp \<open>0, ..., N - 1\<close>.
\<close>

theorem line_models_shape:
  fixes wavelengths :: vec
  assumes "lines \<noteq> []"
    and "2 \<le> length wavelengths"
    and "line_type = ''gaussian'' \<or> line_type = ''voigt'' \<or> line_type = ''lorentzian''"
    and "case fwhms of FloatScalar f \<Rightarrow> True | NonFloatScalar v \<Rightarrow> False
         | PerLine fs \<Rightarrow> length fs = length lines"
  defines "d \<equiv> wavelengths ! 1 - wavelengths ! 0"
  shows "\<exists>ms. line_models erf quad voigt_profile velocity fwhms wavelengths lines line_type
                 voigt_gamma = Inr ms
           \<and> length ms = length lines + 2
           \<and> (\<forall>m \<in> set ms. length m = length wavelengths)
           \<and> (\<forall>j < length lines.
                 (let mu = lines ! j * (1 + velocity / 299792.458);
                      fwhm = (case fwhms of FloatScalar f \<Rightarrow> f | NonFloatScalar v \<Rightarrow> v
                              | PerLine fs \<Rightarrow> fs ! j)
                  in get_spectra_model erf quad voigt_profile wavelengths mu fwhm 1 0 0
                       line_type voigt_gamma = Inr (ms ! j)
                     \<and> ms ! j =
                        (if line_type = ''gaussian'' then
                           map (\<lambda>x. fwhm / 2.355 * sqrt (pi / 2)
                                  * (erf ((x + d / 2 - mu) / (sqrt 2 * (fwhm / 2.355)))
                                     - erf ((x - d / 2 - mu) / (sqrt 2 * (fwhm / 2.355)))))
                             wavelengths
                         else if line_type = ''voigt'' then
                           map (\<lambda>x. quad (\<lambda>t. voigt_profile t (fwhm / 2.355) voigt_gamma)
                                       (x - d / 2 - mu) (x + d / 2 - mu))
                             wavelengths
                         else
                           map (\<lambda>x. (arctan ((x + d / 2 - mu) / (fwhm / 2))
                                      - arctan ((x - d / 2 - mu) / (fwhm / 2))) / pi)
                             wavelengths)))
           \<and> ms ! length lines = replicate (length wavelengths) 1
           \<and> ms ! (length lines + 1) = map real [0..<length wavelengths]"
proof -
  let ?w = "\<lambda>j. case fwhms of FloatScalar f \<Rightarrow> f | NonFloatScalar v \<Rightarrow> v | PerLine fs \<Rightarrow> fs ! j"
  let ?ws = "map ?w [0..<length lines]"
  let ?ps = "zip ?ws lines"
  have ex: "expand_fwhms fwhms lines = Inr ?ws" using assms(4) by (rule expand_fwhms_ok)
  have len_ps: "length ?ps = length lines" by simp
  obtain ms where ms: "line_model_loop erf quad voigt_profile velocity wavelengths line_type
        voigt_gamma ?ps = Inr ms"
    "length ms = length ?ps"
    "\<forall>j < length ?ps. get_spectra_model erf quad voigt_profile wavelengths
                  (snd (?ps ! j) * (1 + velocity / light_speed)) (fst (?ps ! j)) 1 0 0
                  line_type voigt_gamma = Inr (ms ! j)"
    "\<forall>m \<in> set ms. length m = length wavelengths"
    using line_model_loop_ok [OF assms(2,3)] by blast
  have ne: "ms \<noteq> []" using ms(2) len_ps assms(1) by auto
  then have last_len: "length (last ms) = length wavelengths" using ms(4) by simp
  let ?res = "ms @ [map (\<lambda>v. 1) (last ms), map real [0..<length (last ms)]]"
  have res: "line_models erf quad voigt_profile velocity fwhms wavelengths lines line_type
                 voigt_gamma = Inr ?res"
    using ms(1) ne by (simp add: line_models_def ex bind_err_def Let_def del: upt_Suc)
  have ones: "map (\<lambda>v. 1::real) (last ms) = replicate (length wavelengths) 1"
    using last_len by (simp add: map_replicate_const)
  have c1: "length ?res = length lines + 2" using ms(2) len_ps by simp
  have c2: "\<forall>m \<in> set ?res. length m = length wavelengths" using ms(4) last_len by auto
  have c3: "\<forall>j < length lines.
                 (let mu = lines ! j * (1 + velocity / 299792.458);
                      fwhm = ?w j
                  in get_spectra_model erf quad voigt_profile wavelengths mu fwhm 1 0 0
                       line_type voigt_gamma = Inr (?res ! j)
                     \<and> ?res ! j =
                        (if line_type = ''gaussian'' then
                           map (\<lambda>x. fwhm / 2.355 * sqrt (pi / 2)
                                  * (erf ((x + d / 2 - mu) / (sqrt 2 * (fwhm / 2.355)))
                                     - erf ((x - d / 2 - mu) / (sqrt 2 * (fwhm / 2.355)))))
                             wavelengths
                         else if line_type = ''voigt'' then
                           map (\<lambda>x. quad (\<lambda>t. voigt_profile t (fwhm / 2.355) voigt_gamma)
                                       (x - d / 2 - mu) (x + d / 2 - mu))
                             wavelengths
                         else
                           map (\<lambda>x. (arctan ((x + d / 2 - mu) / (fwhm / 2))
                                      - arctan ((x - d / 2 - mu) / (fwhm / 2))) / pi)
                             wavelengths))"
  proof (intro allI impI)
    fix j assume j: "j < length lines"
    let ?mu = "lines ! j * (1 + velocity / 299792.458)"
    have pj: "?ps ! j = (?w j, lines ! j)" using j by (simp split: fwhm_arg.splits)
    have rj: "?res ! j = ms ! j" using j ms(2) len_ps by (simp add: nth_append)
    have "get_spectra_model erf quad voigt_profile wavelengths
                  (snd (?ps ! j) * (1 + velocity / light_speed)) (fst (?ps ! j)) 1 0 0
                  line_type voigt_gamma = Inr (ms ! j)"
      using ms(3) j len_ps by simp
    then have gm: "get_spectra_model erf quad voigt_profile wavelengths ?mu (?w j) 1 0 0
        line_type voigt_gamma = Inr (?res ! j)"
      unfolding pj rj by (simp add: light_speed_def)
    have val: "?res ! j =
                        (if line_type = ''gaussian'' then
                           map (\<lambda>x. ?w j / 2.355 * sqrt (pi / 2)
                                  * (erf ((x + d / 2 - ?mu) / (sqrt 2 * (?w j / 2.355)))
                                     - erf ((x - d / 2 - ?mu) / (sqrt 2 * (?w j / 2.355)))))
                             wavelengths
                         else if line_type = ''voigt'' then
                           map (\<lambda>x. quad (\<lambda>t. voigt_profile t (?w j / 2.355) voigt_gamma)
                                       (x - d / 2 - ?mu) (x + d / 2 - ?mu))
                             wavelengths
                         else
                           map (\<lambda>x. (arctan ((x + d / 2 - ?mu) / (?w j / 2))
                                      - arctan ((x - d / 2 - ?mu) / (?w j / 2))) / pi)
                             wavelengths)"
      using gm assms(3) unfolding get_spectra_model_unit [OF assms(2)] d_def
      by (auto split: if_splits)
    show "let mu = lines ! j * (1 + velocity / 299792.458);
                      fwhm = ?w j
                  in get_spectra_model erf quad voigt_profile wavelengths mu fwhm 1 0 0
                       line_type voigt_gamma = Inr (?res ! j)
                     \<and> ?res ! j =
                        (if line_type = ''gaussian'' then
                           map (\<lambda>x. fwhm / 2.355 * sqrt (pi / 2)
                                  * (erf ((x + d / 2 - mu) / (sqrt 2 * (fwhm / 2.355)))
                                     - erf ((x - d / 2 - mu) / (sqrt 2 * (fwhm / 2.355)))))
                             wavelengths
                         else if line_type = ''voigt'' then
                           map (\<lambda>x. quad (\<lambda>t. voigt_profile t (fwhm / 2.355) voigt_gamma)
                                       (x - d / 2 - mu) (x + d / 2 - mu))
                             wavelengths
                         else
                           map (\<lambda>x. (arctan ((x + d / 2 - mu) / (fwhm / 2))
                                      - arctan ((x - d / 2 - mu) / (fwhm / 2))) / pi)
                             wavelengths)"
      unfolding Let_def using gm val by (rule conjI)
  qed
  have c4: "?res ! length lines = replicate (length wavelengths) 1"
    using ms(2) len_ps ones by (simp add: nth_append)
  have c5: "?res ! (length lines + 1) = map real [0..<length wavelengths]"
    using ms(2) len_ps last_len by (simp add: nth_append)
  show ?thesis using res c1 c2 c3 c4 c5 by (intro exI [of _ ?res] conjI)
qed

theorem line_models_shape_witness:
  "[5026 :: real] \<noteq> [] \<and> 2 \<le> length [10050, 10052 :: real]
   \<and> (\<exists>ms. line_models erf_series (\<lambda>f a b. 0) (\<lambda>x s g. 0) 299792.458 (FloatScalar 2.355)
               [10050, 10052] [5026] ''gaussian'' 1 = Inr ms
          \<and> length ms = 3
          \<and> ms ! 0 = [sqrt (pi / 2) * (erf_series (- 1 / sqrt 2) - erf_series (- 3 / sqrt 2)),
                       sqrt (pi / 2) * (erf_series (1 / sqrt 2) - erf_series (- 1 / sqrt 2))]
          \<and> ms ! 1 = [1, 1] \<and> ms ! 2 = [0, 1])"
proof -
  have h1: "[5026 :: real] \<noteq> []" by simp
  have h2: "2 \<le> length [10050, 10052 :: real]" by simp
  have h3: "''gaussian'' = ''gaussian'' \<or> ''gaussian'' = ''voigt'' \<or> ''gaussian'' = ''lorentzian''"
    by simp
  have h4: "case FloatScalar 2.355 of FloatScalar f \<Rightarrow> True | NonFloatScalar v \<Rightarrow> False
            | PerLine fs \<Rightarrow> length fs = length [5026 :: real]"
    by simp
  have u: "[0..<2] = [0, 1]" by (simp add: numeral_2_eq_2)
  have r: "replicate 2 (1::real) = [1, 1]" by (simp add: numeral_2_eq_2)
  have "\<exists>ms. line_models erf_series (\<lambda>f a b. 0) (\<lambda>x s g. 0) 299792.458 (FloatScalar 2.355)
               [10050, 10052] [5026] ''gaussian'' 1 = Inr ms
          \<and> length ms = 3
          \<and> ms ! 0 = [sqrt (pi / 2) * (erf_series (- 1 / sqrt 2) - erf_series (- 3 / sqrt 2)),
                       sqrt (pi / 2) * (erf_series (1 / sqrt 2) - erf_series (- 1 / sqrt 2))]
          \<and> ms ! 1 = [1, 1] \<and> ms ! 2 = [0, 1]"
    using line_models_shape [OF h1 h2 h3 h4, where erf = erf_series and quad = "\<lambda>f a b. 0"
        and voigt_profile = "\<lambda>x s g. 0" and velocity = "299792.458" and voigt_gamma = 1]
    by (auto simp: u r numeral_2_eq_2 Let_def)
  then show ?thesis using h1 h2 by (intro conjI)
qed

text \<open>
  C3, as stated for every scalar width, fails: a scalar width that is not a Python float,
  such as the integer 5, is passed to \<open>zip\<close> as it is, and no model vector is built.
\<close>

theorem line_models_non_float_counterexample:
  "line_models erf_series (\<lambda>f a b. 0) (\<lambda>x s g. 0) 0 (NonFloatScalar 5)
     [10050, 10052] [10052.128] ''gaussian'' 1 = Inl TypeError"
  by (simp add: line_models_def expand_fwhms_def bind_err_def)

subsection \<open>The weighted solve\<close>

lemma solve_weighted_unfold:
  assumes "models \<noteq> []" and "\<forall>m \<in> set models. length m = length noise"
    and "length spectra = length noise"
  shows "solve_weighted lstsq nnls models spectra noise get_amp =
     bind_log
       (lstsq_except_nnls lstsq nnls
          (map2 (\<lambda>row n. map (\<lambda>a. a * sqrt (1 / n ^ 2)) row)
             (map (\<lambda>i. map (\<lambda>m. m ! i) models) [0..<length noise]) noise)
          (map2 (\<lambda>x n. x * sqrt (1 / n ^ 2)) spectra noise))
       (\<lambda>coeffs. bind_log (lift (matvec (map (\<lambda>i. map (\<lambda>m. m ! i) models) [0..<length noise]) coeffs))
          (\<lambda>line_model.
            lift (Inr (if get_amp then ModelAmp line_model coeffs else Model line_model))))"
proof -
  let ?A = "map (\<lambda>i. map (\<lambda>m. m ! i) models) [0..<length noise]"
  have a: "np_array_T models = Inr ?A" using np_array_T_rect [OF assms(1,2)] .
  have b: "scale_rows ?A (map sqrt (map (\<lambda>n. 1 / n ^ 2) noise))
      = Inr (map2 (\<lambda>row n. map (\<lambda>a. a * sqrt (1 / n ^ 2)) row) ?A noise)"
    by (rule scale_rows_weights) simp
  have c: "np_mul spectra (map sqrt (map (\<lambda>n. 1 / n ^ 2) noise))
      = Inr (map2 (\<lambda>x n. x * sqrt (1 / n ^ 2)) spectra noise)"
    by (rule np_mul_weights) (rule assms(3))
  show ?thesis
    unfolding solve_weighted_def Let_def a b c bind_log_lift_Inr ..
qed

lemma lstsq_except_nnls_cases:
  "lstsq_except_nnls lstsq nnls Aw bw =
     (if lstsq Aw bw = Inl LinAlgError then ([Lstsq_call Aw bw, Nnls_call Aw bw], nnls Aw bw)
      else ([Lstsq_call Aw bw], lstsq Aw bw))"
  by (simp add: lstsq_except_nnls_def call_lstsq_def call_nnls_def split: sum.splits error.splits)

lemma bind_log_fst:
  "fst (bind_log (l, r) (\<lambda>c. bind_log (lift (g c)) (\<lambda>x. lift (Inr (h x c))))) = l"
  by (cases r) (auto simp: bind_log_def lift_def split: sum.splits prod.splits)

lemma bind_log_snd:
  "snd (bind_log (l, r) (\<lambda>c. bind_log (lift (g c)) (\<lambda>x. lift (Inr (h x c)))))
     = bind_err r (\<lambda>c. bind_err (g c) (\<lambda>x. Inr (h x c)))"
  by (cases r) (auto simp: bind_log_def bind_err_def lift_def split: sum.splits prod.splits)

lemma weights_positive:
  assumes "0 < (n::real)"
  shows "sqrt (1 / n ^ 2) = 1 / n"
  using assms by (simp add: real_sqrt_divide)

text \<open>
  C1. \<open>models\<close> is any non-empty list of model vectors as long as the noise, which is
  strictly positive, and the flux has that length too; \<open>nnls\<close> is any solver whose
  solutions are non-negative. Then the least-squares solver is called on the system whose
  rows and right-hand side are scaled by \<open>sqrt (1 / noise\<^sup>2)\<close>, that is divided by the noise.
  The non-negative solver is called exactly when that call raises \<open>LinAlgError\<close>, on the
  same system, and then the outcome of the fit is the outcome of the non-negative solver:
  the \<open>LinAlgError\<close> is not raised, and when the non-negative solver returns coefficients (one
  per model vector) the fit returns them, all non-negative, with the model curve. After
  any other outcome of the least-squares call the non-negative solver is not called. The
  fit \<open>best_linear_fit_model\<close> is this solve on the model vectors it built.
\<close>

theorem weighted_solver_fallback:
  fixes lstsq nnls :: solver and get_amp :: bool
  assumes pos: "\<forall>n \<in> set noise. 0 < n"
    and shape: "models \<noteq> []" "\<forall>m \<in> set models. length m = length noise"
      "length spectra = length noise"
    and nonneg: "\<forall>A b c. nnls A b = Inr c \<longrightarrow> (\<forall>x \<in> set c. 0 \<le> x)"
  defines "A \<equiv> map (\<lambda>i. map (\<lambda>m. m ! i) models) [0..<length noise]"
  defines "Aw \<equiv> map2 (\<lambda>row n. map (\<lambda>a. a * sqrt (1 / n ^ 2)) row) A noise"
    and "bw \<equiv> map2 (\<lambda>x n. x * sqrt (1 / n ^ 2)) spectra noise"
  defines "run \<equiv> solve_weighted lstsq nnls models spectra noise get_amp"
  shows "(line_models erf quad voigt_profile velocity fwhms wavelengths lines line_type voigt_gamma
            = Inr models \<longrightarrow>
          best_linear_fit_model lstsq nnls erf quad voigt_profile velocity fwhms wavelengths
            spectra noise lines line_type voigt_gamma get_amp = run)
       \<and> Aw = map2 (\<lambda>row n. map (\<lambda>a. a / n) row) A noise
       \<and> bw = map2 (\<lambda>x n. x / n) spectra noise
       \<and> (lstsq Aw bw = Inl LinAlgError \<longleftrightarrow> Nnls_call Aw bw \<in> set (fst run))
       \<and> fst run = (if lstsq Aw bw = Inl LinAlgError then [Lstsq_call Aw bw, Nnls_call Aw bw]
                    else [Lstsq_call Aw bw])
       \<and> (lstsq Aw bw = Inl LinAlgError \<longrightarrow>
            snd run = bind_err (nnls Aw bw) (\<lambda>c. bind_err (matvec A c) (\<lambda>line_model.
                        Inr (if get_amp then ModelAmp line_model c else Model line_model))))
       \<and> (\<forall>c. lstsq Aw bw = Inl LinAlgError \<and> nnls Aw bw = Inr c \<and> length c = length models \<longrightarrow>
            (\<forall>x \<in> set c. 0 \<le> x)
            \<and> snd run = Inr (let line_model = map (\<lambda>row. sum_list (map2 (*) row c)) A
                             in if get_amp then ModelAmp line_model c else Model line_model))
       \<and> (lstsq Aw bw \<noteq> Inl LinAlgError \<longrightarrow>
            snd run = bind_err (lstsq Aw bw) (\<lambda>c. bind_err (matvec A c) (\<lambda>line_model.
                        Inr (if get_amp then ModelAmp line_model c else Model line_model))))"
proof -
  have run: "run = bind_log (lstsq_except_nnls lstsq nnls Aw bw)
       (\<lambda>coeffs. bind_log (lift (matvec A coeffs))
          (\<lambda>line_model.
            lift (Inr (if get_amp then ModelAmp line_model coeffs else Model line_model))))"
    unfolding run_def Aw_def bw_def A_def by (rule solve_weighted_unfold [OF shape])
  have c0: "line_models erf quad voigt_profile velocity fwhms wavelengths lines line_type voigt_gamma
            = Inr models \<longrightarrow>
          best_linear_fit_model lstsq nnls erf quad voigt_profile velocity fwhms wavelengths
            spectra noise lines line_type voigt_gamma get_amp = run"
    unfolding run_def by (simp add: best_linear_fit_model_def)
  have w: "sqrt (1 / n ^ 2) = 1 / n" if "n \<in> set noise" for n
    using pos that by (simp add: weights_positive)
  have c1: "Aw = map2 (\<lambda>row n. map (\<lambda>a. a / n) row) A noise"
    unfolding Aw_def by (rule map_cong) (auto simp: w dest: set_zip_rightD)
  have c2: "bw = map2 (\<lambda>x n. x / n) spectra noise"
    unfolding bw_def by (rule map_cong) (auto simp: w dest: set_zip_rightD)
  have c4: "fst run = (if lstsq Aw bw = Inl LinAlgError then [Lstsq_call Aw bw, Nnls_call Aw bw]
                    else [Lstsq_call Aw bw])"
    unfolding run lstsq_except_nnls_cases by (simp add: bind_log_fst)
  have c3: "lstsq Aw bw = Inl LinAlgError \<longleftrightarrow> Nnls_call Aw bw \<in> set (fst run)"
    unfolding c4 by simp
  have c5: "lstsq Aw bw = Inl LinAlgError \<longrightarrow>
            snd run = bind_err (nnls Aw bw) (\<lambda>c. bind_err (matvec A c) (\<lambda>line_model.
                        Inr (if get_amp then ModelAmp line_model c else Model line_model)))"
    unfolding run lstsq_except_nnls_cases by (simp add: bind_log_snd)
  have c7: "lstsq Aw bw \<noteq> Inl LinAlgError \<longrightarrow>
            snd run = bind_err (lstsq Aw bw) (\<lambda>c. bind_err (matvec A c) (\<lambda>line_model.
                        Inr (if get_amp then ModelAmp line_model c else Model line_model)))"
    unfolding run lstsq_except_nnls_cases by (simp add: bind_log_snd)
  have rows: "list_all (\<lambda>row. length row = length models) A"
    unfolding A_def by (simp add: list_all_iff)
  have c6: "\<forall>c. lstsq Aw bw = Inl LinAlgError \<and> nnls Aw bw = Inr c \<and> length c = length models \<longrightarrow>
            (\<forall>x \<in> set c. 0 \<le> x)
            \<and> snd run = Inr (let line_model = map (\<lambda>row. sum_list (map2 (*) row c)) A
                             in if get_amp then ModelAmp line_model c else Model line_model)"
  proof (intro allI impI conjI)
    fix c assume h: "lstsq Aw bw = Inl LinAlgError \<and> nnls Aw bw = Inr c \<and> length c = length models"
    show "\<forall>x \<in> set c. 0 \<le> x" using nonneg h by blast
    have "matvec A c = Inr (map (\<lambda>row. sum_list (map2 (*) row c)) A)"
      using rows h by (simp add: matvec_def)
    then show "snd run = Inr (let line_model = map (\<lambda>row. sum_list (map2 (*) row c)) A
                             in if get_amp then ModelAmp line_model c else Model line_model)"
      using c5 h by (simp add: bind_err_def Let_def)
  qed
  show ?thesis using c0 c1 c2 c3 c4 c5 c6 c7 by (intro conjI)
qed

theorem weighted_solver_fallback_witness:
  "fst (solve_weighted (\<lambda>A b. Inl LinAlgError) (\<lambda>A b. Inr [0, 0]) [[1, 1], [0, 1]] [1, 2] [1, 2] True)
     = [Lstsq_call [[1, 0], [1 / 2, 1 / 2]] [1, 1], Nnls_call [[1, 0], [1 / 2, 1 / 2]] [1, 1]]
   \<and> snd (solve_weighted (\<lambda>A b. Inl LinAlgError) (\<lambda>A b. Inr [0, 0]) [[1, 1], [0, 1]] [1, 2] [1, 2] True)
     = Inr (ModelAmp [0, 0] [0, 0])"
proof -
  have h1: "\<forall>n \<in> set [1, 2 :: real]. 0 < n" by simp
  have h2: "[[1, 1], [0, 1 :: real]] \<noteq> []" by simp
  have h3: "\<forall>m \<in> set [[1, 1], [0, 1 :: real]]. length m = length [1, 2 :: real]" by simp
  have h4: "length [1, 2 :: real] = length [1, 2 :: real]" by simp
  have h5: "\<forall>A b c. (\<lambda>A b. Inr [0, 0]) A b = (Inr c :: error + vec) \<longrightarrow> (\<forall>x \<in> set c. 0 \<le> x)"
    by auto
  have u: "[0..<2] = [0, 1]" by (simp add: numeral_2_eq_2)
  have s: "sqrt (1 / 4) = 1 / 2" by (simp add: real_sqrt_divide)
  show ?thesis
    using weighted_solver_fallback [OF h1 h2 h3 h4 h5, where lstsq = "\<lambda>A b. Inl LinAlgError"
        and get_amp = True]
    by (simp add: u s bind_err_def matvec_def)
qed

subsection \<open>The fit of two spectra\<close>

lemma simultaneous_loop_ok:
  assumes "2 \<le> length x1" and "2 \<le> length x2"
  shows "\<exists>ms1 ms2. simultaneous_loop erf quad voigt_profile v1 v2 x1 x2 ps = Inr (ms1, ms2)
           \<and> length ms1 = length ps \<and> length ms2 = length ps
           \<and> (\<forall>j < length ps.
                 get_spectra_model erf quad voigt_profile x1
                   (snd (snd (ps ! j)) * (1 + v1 / light_speed)) (fst (ps ! j)) 1 0 0 ''gaussian'' 1
                   = Inr (ms1 ! j)
                 \<and> get_spectra_model erf quad voigt_profile x2
                   (snd (snd (ps ! j)) * (1 + v2 / light_speed)) (fst (snd (ps ! j))) 1 0 0
                   ''gaussian'' 1
                   = Inr (ms2 ! j))
           \<and> (\<forall>m \<in> set ms1. length m = length x1)
           \<and> (\<forall>m \<in> set ms2. length m = length x2)"
proof (induction ps)
  case Nil
  then show ?case by simp
next
  case (Cons p ps)
  obtain f1 f2 line where p: "p = (f1, f2, line)" by (cases p)
  obtain ms1 ms2 where ih:
    "simultaneous_loop erf quad voigt_profile v1 v2 x1 x2 ps = Inr (ms1, ms2)"
    "length ms1 = length ps" "length ms2 = length ps"
    "\<forall>j < length ps.
                 get_spectra_model erf quad voigt_profile x1
                   (snd (snd (ps ! j)) * (1 + v1 / light_speed)) (fst (ps ! j)) 1 0 0 ''gaussian'' 1
                   = Inr (ms1 ! j)
                 \<and> get_spectra_model erf quad voigt_profile x2
                   (snd (snd (ps ! j)) * (1 + v2 / light_speed)) (fst (snd (ps ! j))) 1 0 0
                   ''gaussian'' 1
                   = Inr (ms2 ! j)"
    "\<forall>m \<in> set ms1. length m = length x1" "\<forall>m \<in> set ms2. length m = length x2"
    using Cons.IH by blast
  obtain m1 where m1: "get_spectra_model erf quad voigt_profile x1
       (line * (1 + v1 / light_speed)) f1 1 0 0 ''gaussian'' 1 = Inr m1" "length m1 = length x1"
    using get_spectra_model_length [OF assms(1), of "''gaussian''"] by blast
  obtain m2 where m2: "get_spectra_model erf quad voigt_profile x2
       (line * (1 + v2 / light_speed)) f2 1 0 0 ''gaussian'' 1 = Inr m2" "length m2 = length x2"
    using get_spectra_model_length [OF assms(2), of "''gaussian''"] by blast
  have res: "simultaneous_loop erf quad voigt_profile v1 v2 x1 x2 (p # ps)
      = Inr (m1 # ms1, m2 # ms2)"
    using m1(1) m2(1) ih(1) by (simp add: p bind_err_def Let_def)
  have nth: "\<forall>j < length (p # ps).
                 get_spectra_model erf quad voigt_profile x1
                   (snd (snd ((p # ps) ! j)) * (1 + v1 / light_speed)) (fst ((p # ps) ! j)) 1 0 0
                   ''gaussian'' 1 = Inr ((m1 # ms1) ! j)
                 \<and> get_spectra_model erf quad voigt_profile x2
                   (snd (snd ((p # ps) ! j)) * (1 + v2 / light_speed)) (fst (snd ((p # ps) ! j)))
                   1 0 0 ''gaussian'' 1 = Inr ((m2 # ms2) ! j)"
  proof (intro allI impI)
    fix j assume "j < length (p # ps)"
    then show "get_spectra_model erf quad voigt_profile x1
                   (snd (snd ((p # ps) ! j)) * (1 + v1 / light_speed)) (fst ((p # ps) ! j)) 1 0 0
                   ''gaussian'' 1 = Inr ((m1 # ms1) ! j)
                 \<and> get_spectra_model erf quad voigt_profile x2
                   (snd (snd ((p # ps) ! j)) * (1 + v2 / light_speed)) (fst (snd ((p # ps) ! j)))
                   1 0 0 ''gaussian'' 1 = Inr ((m2 # ms2) ! j)"
      using m1(1) m2(1) ih(4) by (cases j) (simp_all add: p)
  qed
  show ?case
    using res nth ih(2,3,5,6) m1(2) m2(2)
    by (intro exI [of _ "m1 # ms1"] exI [of _ "m2 # ms2"]) simp
qed

text \<open>
  C2. For a non-empty list of lines, two grids of at least two wavelengths with flux and
  noise of the grid's length, and widths given as floats or one per line: no call of the
  least-squares solver is made; the first solver call is the non-negative solver on the
  weighted design matrix of spectrum 1 (per row the line models, 1 and the pixel index);
  and when it returns one coefficient per column, the second and last call is the
  non-negative solver on the weighted matrix whose rows are, for each pixel \<open>i\<close> of
  spectrum 2, the sum of spectrum 2's line models at \<open>i\<close> times the coefficients without
  the last two, then 1, then \<open>i\<close>: exactly 3 columns.
\<close>

theorem simultaneous_fit_structure:
  fixes nnls :: solver
    and erf :: "real \<Rightarrow> real"
    and quad :: "(real \<Rightarrow> real) \<Rightarrow> real \<Rightarrow> real \<Rightarrow> real"
    and voigt_profile :: "real \<Rightarrow> real \<Rightarrow> real \<Rightarrow> real"
    and velocity_1 velocity_2 :: real
    and fwhms_1 fwhms_2 :: fwhm_arg
    and wavelengths_1 spectra_1 noise_1 wavelengths_2 spectra_2 noise_2 :: vec
    and lines :: "real list"
  assumes ne: "lines \<noteq> []"
    and n1: "2 \<le> length wavelengths_1" and n2: "2 \<le> length wavelengths_2"
    and f1: "case fwhms_1 of FloatScalar f \<Rightarrow> True | NonFloatScalar v \<Rightarrow> False
             | PerLine fs \<Rightarrow> length fs = length lines"
    and f2: "case fwhms_2 of FloatScalar f \<Rightarrow> True | NonFloatScalar v \<Rightarrow> False
             | PerLine fs \<Rightarrow> length fs = length lines"
    and s1: "length spectra_1 = length wavelengths_1" and e1: "length noise_1 = length wavelengths_1"
    and s2: "length spectra_2 = length wavelengths_2" and e2: "length noise_2 = length wavelengths_2"
  defines "run \<equiv> best_linear_fit_model_simultaneous nnls erf quad voigt_profile
       velocity_1 fwhms_1 velocity_2 fwhms_2 wavelengths_1 spectra_1 noise_1
       wavelengths_2 spectra_2 noise_2 lines"
  shows "\<exists>ms_1 ms_2.
     length ms_1 = length lines \<and> length ms_2 = length lines
     \<and> (\<forall>j < length lines.
           get_spectra_model erf quad voigt_profile wavelengths_1
             (lines ! j * (1 + velocity_1 / light_speed))
             (case fwhms_1 of FloatScalar f \<Rightarrow> f | NonFloatScalar v \<Rightarrow> v
              | PerLine fs \<Rightarrow> fs ! j) 1 0 0 ''gaussian'' 1
             = Inr (ms_1 ! j)
           \<and> get_spectra_model erf quad voigt_profile wavelengths_2
             (lines ! j * (1 + velocity_2 / light_speed))
             (case fwhms_2 of FloatScalar f \<Rightarrow> f | NonFloatScalar v \<Rightarrow> v
              | PerLine fs \<Rightarrow> fs ! j) 1 0 0 ''gaussian'' 1
             = Inr (ms_2 ! j))
     \<and> (let A_1 = map (\<lambda>i. map (\<lambda>m. m ! i) ms_1 @ [1, real i]) [0..<length wavelengths_1];
             Aw_1 = map2 (\<lambda>row n. map (\<lambda>a. a * sqrt (1 / n ^ 2)) row) A_1 noise_1;
             bw_1 = map2 (\<lambda>x n. x * sqrt (1 / n ^ 2)) spectra_1 noise_1
         in (\<forall>A b. Lstsq_call A b \<notin> set (fst run))
            \<and> (\<exists>rest. fst run = Nnls_call Aw_1 bw_1 # rest)
            \<and> (\<forall>coeffs. nnls Aw_1 bw_1 = Inr coeffs \<and> length coeffs = length lines + 2 \<longrightarrow>
                 (let A_2 = map (\<lambda>i. [sum_list (map2 (*) (map (\<lambda>m. m ! i) ms_2)
                                                   (butlast (butlast coeffs))), 1, real i])
                                [0..<length wavelengths_2];
                      Aw_2 = map2 (\<lambda>row n. map (\<lambda>a. a * sqrt (1 / n ^ 2)) row) A_2 noise_2;
                      bw_2 = map2 (\<lambda>x n. x * sqrt (1 / n ^ 2)) spectra_2 noise_2
                  in fst run = [Nnls_call Aw_1 bw_1, Nnls_call Aw_2 bw_2]
                     \<and> (\<forall>row \<in> set A_2. length row = 3)
                     \<and> snd run =
                         bind_err (nnls Aw_2 bw_2) (\<lambda>coeffs_2.
                         bind_err (matvec A_2 coeffs_2) (\<lambda>line_model_2.
                         Inr (map (\<lambda>row. sum_list (map2 (*) row coeffs)) A_1, line_model_2))))))"
proof -
  let ?L = "length lines" and ?N1 = "length wavelengths_1" and ?N2 = "length wavelengths_2"
  let ?w1 = "\<lambda>j. case fwhms_1 of FloatScalar f \<Rightarrow> f | NonFloatScalar v \<Rightarrow> v | PerLine fs \<Rightarrow> fs ! j"
  let ?w2 = "\<lambda>j. case fwhms_2 of FloatScalar f \<Rightarrow> f | NonFloatScalar v \<Rightarrow> v | PerLine fs \<Rightarrow> fs ! j"
  let ?ps = "zip (map ?w1 [0..<?L]) (zip (map ?w2 [0..<?L]) lines)"
  have ex1: "expand_fwhms fwhms_1 lines = Inr (map ?w1 [0..<?L])" using f1 by (rule expand_fwhms_ok)
  have ex2: "expand_fwhms fwhms_2 lines = Inr (map ?w2 [0..<?L])" using f2 by (rule expand_fwhms_ok)
  have len_ps: "length ?ps = ?L" by simp
  obtain ms1 ms2 where loop:
    "simultaneous_loop erf quad voigt_profile velocity_1 velocity_2 wavelengths_1 wavelengths_2 ?ps
       = Inr (ms1, ms2)"
    and len1: "length ms1 = length ?ps" and len2: "length ms2 = length ?ps"
    and nth: "\<forall>j < length ?ps.
                 get_spectra_model erf quad voigt_profile wavelengths_1
                   (snd (snd (?ps ! j)) * (1 + velocity_1 / light_speed)) (fst (?ps ! j)) 1 0 0
                   ''gaussian'' 1 = Inr (ms1 ! j)
                 \<and> get_spectra_model erf quad voigt_profile wavelengths_2
                   (snd (snd (?ps ! j)) * (1 + velocity_2 / light_speed)) (fst (snd (?ps ! j)))
                   1 0 0 ''gaussian'' 1 = Inr (ms2 ! j)"
    and sh1: "\<forall>m \<in> set ms1. length m = ?N1" and sh2: "\<forall>m \<in> set ms2. length m = ?N2"
    using simultaneous_loop_ok [OF n1 n2] by blast
  have ne1: "ms1 \<noteq> []" and ne2: "ms2 \<noteq> []" using len1 len2 len_ps ne by auto
  have last1: "length (last ms1) = ?N1" using ne1 sh1 by simp
  let ?lm1 = "ms1 @ [map (\<lambda>v. 1) (last ms1), map real [0..<length (last ms1)]]"
  let ?A1 = "map (\<lambda>i. map (\<lambda>m. m ! i) ms1 @ [1, real i]) [0..<?N1]"
  let ?Aw1 = "map2 (\<lambda>row n. map (\<lambda>a. a * sqrt (1 / n ^ 2)) row) ?A1 noise_1"
  let ?bw1 = "map2 (\<lambda>x n. x * sqrt (1 / n ^ 2)) spectra_1 noise_1"
  have "np_array_T ?lm1 = Inr (map (\<lambda>i. map (\<lambda>m. m ! i) ?lm1) [0..<?N1])"
    by (rule np_array_T_rect) (use sh1 last1 in auto)
  also have "map (\<lambda>i. map (\<lambda>m. m ! i) ?lm1) [0..<?N1] = ?A1"
    by (rule map_cong) (simp_all add: last1)
  finally have A1: "np_array_T ?lm1 = Inr ?A1" .
  have Aw1: "scale_rows ?A1 (map sqrt (map (\<lambda>n. 1 / n ^ 2) noise_1)) = Inr ?Aw1"
    by (rule scale_rows_weights) (simp add: e1)
  have bw1: "np_mul spectra_1 (map sqrt (map (\<lambda>n. 1 / n ^ 2) noise_1)) = Inr ?bw1"
    by (rule np_mul_weights) (simp add: s1 e1)
  define cont where "cont = (\<lambda>coeffs.
         bind_log (lift (matvec ?A1 coeffs)) (\<lambda>line_model_1.
         bind_log (lift (np_array_T ms2)) (\<lambda>M_2.
         bind_log (lift (matvec M_2 (take (length coeffs - 2) coeffs))) (\<lambda>spec_model_2.
         bind_log (lift (np_array_T
                           [spec_model_2, map (\<lambda>v. 1) spec_model_2,
                            map real [0..<length spec_model_2]])) (\<lambda>A_2.
         bind_log (lift (scale_rows A_2 (map sqrt (map (\<lambda>n. 1 / n ^ 2) noise_2)))) (\<lambda>A_weighted_2.
         bind_log (lift (np_mul spectra_2 (map sqrt (map (\<lambda>n. 1 / n ^ 2) noise_2)))) (\<lambda>b_weighted_2.
         bind_log (call_nnls nnls A_weighted_2 b_weighted_2) (\<lambda>coeffs_2.
         bind_log (lift (matvec A_2 coeffs_2)) (\<lambda>line_model_2.
         lift (Inr (line_model_1, line_model_2)))))))))))"
  have run: "run = bind_log (call_nnls nnls ?Aw1 ?bw1) cont"
    unfolding run_def best_linear_fit_model_simultaneous_def cont_def ex1 ex2 bind_log_lift_Inr
      loop prod.case Let_def
    using ne1 by (simp only: if_False A1 Aw1 bw1 bind_log_lift_Inr)
  have rows1: "\<forall>row \<in> set ?A1. length row = ?L + 2" using len1 len_ps by simp
  have cont_bad: "cont c = ([], Inl (ValueError ''matmul: size mismatch''))"
    if "length c \<noteq> ?L + 2" for c
  proof -
    have "0 < ?N1" using n1 by (cases wavelengths_1) simp_all
    then have "?A1 \<noteq> []" by simp
    then have "hd ?A1 \<in> set ?A1" by (rule hd_in_set)
    moreover from this have "length (hd ?A1) = ?L + 2" using rows1 by blast
    ultimately have "\<exists>row \<in> set ?A1. length row \<noteq> length c"
      using that by (intro bexI [of _ "hd ?A1"]) simp_all
    then have mv: "matvec ?A1 c = Inl (ValueError ''matmul: size mismatch'')" by (rule matvec_bad)
    show ?thesis unfolding cont_def mv bind_log_lift_Inl by (simp add: lift_def)
  qed
  have cont_ok: "cont c =
       (let A_2 = map (\<lambda>i. [sum_list (map2 (*) (map (\<lambda>m. m ! i) ms2) (butlast (butlast c))),
                              1, real i]) [0..<?N2];
            Aw_2 = map2 (\<lambda>row n. map (\<lambda>a. a * sqrt (1 / n ^ 2)) row) A_2 noise_2;
            bw_2 = map2 (\<lambda>x n. x * sqrt (1 / n ^ 2)) spectra_2 noise_2
        in ([Nnls_call Aw_2 bw_2],
            bind_err (nnls Aw_2 bw_2) (\<lambda>coeffs_2.
            bind_err (matvec A_2 coeffs_2) (\<lambda>line_model_2.
            Inr (map (\<lambda>row. sum_list (map2 (*) row c)) ?A1, line_model_2)))))"
    if c: "length c = ?L + 2" for c
  proof -
    let ?M2 = "map (\<lambda>i. map (\<lambda>m. m ! i) ms2) [0..<?N2]"
    let ?c' = "butlast (butlast c)"
    let ?t = "map (\<lambda>row. sum_list (map2 (*) row ?c')) ?M2"
    let ?A2 = "map (\<lambda>i. [sum_list (map2 (*) (map (\<lambda>m. m ! i) ms2) ?c'), 1, real i]) [0..<?N2]"
    let ?Aw2 = "map2 (\<lambda>row n. map (\<lambda>a. a * sqrt (1 / n ^ 2)) row) ?A2 noise_2"
    let ?bw2 = "map2 (\<lambda>x n. x * sqrt (1 / n ^ 2)) spectra_2 noise_2"
    have mv1: "matvec ?A1 c = Inr (map (\<lambda>row. sum_list (map2 (*) row c)) ?A1)"
      by (rule matvec_ok) (use rows1 c in simp)
    have M2: "np_array_T ms2 = Inr ?M2" by (rule np_array_T_rect [OF ne2 sh2])
    have lc': "length ?c' = ?L" using c by simp
    have mv2: "matvec ?M2 (take (length c - 2) c) = Inr ?t"
      unfolding take_butlast2 by (rule matvec_ok) (use lc' len2 len_ps in simp)
    have lt: "length ?t = ?N2" by simp
    have "np_array_T [?t, map (\<lambda>v. 1) ?t, map real [0..<length ?t]]
        = Inr (map (\<lambda>i. map (\<lambda>m. m ! i) [?t, map (\<lambda>v. 1) ?t, map real [0..<length ?t]]) [0..<?N2])"
      by (rule np_array_T_rect) simp_all
    also have "map (\<lambda>i. map (\<lambda>m. m ! i) [?t, map (\<lambda>v. 1) ?t, map real [0..<length ?t]]) [0..<?N2] = ?A2"
      by (rule map_cong) (simp_all del: upt_Suc)
    finally have A2: "np_array_T [?t, map (\<lambda>v. 1) ?t, map real [0..<length ?t]] = Inr ?A2" .
    have Aw2: "scale_rows ?A2 (map sqrt (map (\<lambda>n. 1 / n ^ 2) noise_2)) = Inr ?Aw2"
      by (rule scale_rows_weights) (simp add: e2)
    have bw2: "np_mul spectra_2 (map sqrt (map (\<lambda>n. 1 / n ^ 2) noise_2)) = Inr ?bw2"
      by (rule np_mul_weights) (simp add: s2 e2)
    have "cont c = bind_log (call_nnls nnls ?Aw2 ?bw2) (\<lambda>coeffs_2.
         bind_log (lift (matvec ?A2 coeffs_2)) (\<lambda>line_model_2.
         lift (Inr (map (\<lambda>row. sum_list (map2 (*) row c)) ?A1, line_model_2))))"
      unfolding cont_def mv1 bind_log_lift_Inr M2 mv2 A2 Aw2 bw2 ..
    also have "\<dots> = ([Nnls_call ?Aw2 ?bw2],
            bind_err (nnls ?Aw2 ?bw2) (\<lambda>coeffs_2.
            bind_err (matvec ?A2 coeffs_2) (\<lambda>line_model_2.
            Inr (map (\<lambda>row. sum_list (map2 (*) row c)) ?A1, line_model_2))))"
      by (rule bind_log_call_nnls_final)
    finally show ?thesis by (simp only: Let_def)
  qed
  have fst_cont: "\<forall>A b. Lstsq_call A b \<notin> set (fst (cont c))" for c
  proof (cases "length c = ?L + 2")
    case True
    show ?thesis unfolding cont_ok [OF True] Let_def by simp
  next
    case False
    show ?thesis unfolding cont_bad [OF False] by simp
  qed
  have p1: "\<forall>A b. Lstsq_call A b \<notin> set (fst run)"
    unfolding run bind_log_call_nnls using fst_cont by (simp split: sum.splits)
  have p2: "\<exists>rest. fst run = Nnls_call ?Aw1 ?bw1 # rest"
    unfolding run bind_log_call_nnls by (simp split: sum.splits)
  have p3: "\<forall>coeffs. nnls ?Aw1 ?bw1 = Inr coeffs \<and> length coeffs = ?L + 2 \<longrightarrow>
                 (let A_2 = map (\<lambda>i. [sum_list (map2 (*) (map (\<lambda>m. m ! i) ms2)
                                                   (butlast (butlast coeffs))), 1, real i])
                                [0..<?N2];
                      Aw_2 = map2 (\<lambda>row n. map (\<lambda>a. a * sqrt (1 / n ^ 2)) row) A_2 noise_2;
                      bw_2 = map2 (\<lambda>x n. x * sqrt (1 / n ^ 2)) spectra_2 noise_2
                  in fst run = [Nnls_call ?Aw1 ?bw1, Nnls_call Aw_2 bw_2]
                     \<and> (\<forall>row \<in> set A_2. length row = 3)
                     \<and> snd run =
                         bind_err (nnls Aw_2 bw_2) (\<lambda>coeffs_2.
                         bind_err (matvec A_2 coeffs_2) (\<lambda>line_model_2.
                         Inr (map (\<lambda>row. sum_list (map2 (*) row coeffs)) ?A1, line_model_2))))"
  proof (intro allI impI)
    fix coeffs assume h: "nnls ?Aw1 ?bw1 = Inr coeffs \<and> length coeffs = ?L + 2"
    then have r: "run = (Nnls_call ?Aw1 ?bw1 # fst (cont coeffs), snd (cont coeffs))"
      unfolding run bind_log_call_nnls by simp
    from h have c: "length coeffs = ?L + 2" by simp
    show "let A_2 = map (\<lambda>i. [sum_list (map2 (*) (map (\<lambda>m. m ! i) ms2)
                                                   (butlast (butlast coeffs))), 1, real i])
                                [0..<?N2];
                      Aw_2 = map2 (\<lambda>row n. map (\<lambda>a. a * sqrt (1 / n ^ 2)) row) A_2 noise_2;
                      bw_2 = map2 (\<lambda>x n. x * sqrt (1 / n ^ 2)) spectra_2 noise_2
                  in fst run = [Nnls_call ?Aw1 ?bw1, Nnls_call Aw_2 bw_2]
                     \<and> (\<forall>row \<in> set A_2. length row = 3)
                     \<and> snd run =
                         bind_err (nnls Aw_2 bw_2) (\<lambda>coeffs_2.
                         bind_err (matvec A_2 coeffs_2) (\<lambda>line_model_2.
                         Inr (map (\<lambda>row. sum_list (map2 (*) row coeffs)) ?A1, line_model_2)))"
      unfolding r cont_ok [OF c] Let_def by (simp del: upt_Suc)
  qed
  have nth': "\<forall>j < ?L.
           get_spectra_model erf quad voigt_profile wavelengths_1
             (lines ! j * (1 + velocity_1 / light_speed))
             (case fwhms_1 of FloatScalar f \<Rightarrow> f | NonFloatScalar v \<Rightarrow> v
              | PerLine fs \<Rightarrow> fs ! j) 1 0 0 ''gaussian'' 1
             = Inr (ms1 ! j)
           \<and> get_spectra_model erf quad voigt_profile wavelengths_2
             (lines ! j * (1 + velocity_2 / light_speed))
             (case fwhms_2 of FloatScalar f \<Rightarrow> f | NonFloatScalar v \<Rightarrow> v
              | PerLine fs \<Rightarrow> fs ! j) 1 0 0 ''gaussian'' 1
             = Inr (ms2 ! j)"
  proof (intro allI impI)
    fix j assume j: "j < ?L"
    have "?ps ! j = (?w1 j, ?w2 j, lines ! j)"
      using j by (simp split: fwhm_arg.splits)
    then show "get_spectra_model erf quad voigt_profile wavelengths_1
             (lines ! j * (1 + velocity_1 / light_speed))
             (case fwhms_1 of FloatScalar f \<Rightarrow> f | NonFloatScalar v \<Rightarrow> v
              | PerLine fs \<Rightarrow> fs ! j) 1 0 0 ''gaussian'' 1
             = Inr (ms1 ! j)
           \<and> get_spectra_model erf quad voigt_profile wavelengths_2
             (lines ! j * (1 + velocity_2 / light_speed))
             (case fwhms_2 of FloatScalar f \<Rightarrow> f | NonFloatScalar v \<Rightarrow> v
              | PerLine fs \<Rightarrow> fs ! j) 1 0 0 ''gaussian'' 1
             = Inr (ms2 ! j)"
      using nth j len_ps by (metis fst_conv snd_conv)
  qed
  have l1: "length ms1 = ?L" and l2: "length ms2 = ?L" using len1 len2 len_ps by simp_all
  show ?thesis
    unfolding Let_def
    apply (rule exI [of _ ms1], rule exI [of _ ms2])
    apply (intro conjI)
         apply (rule l1)
        apply (rule l2)
       apply (rule nth')
      apply (rule p1)
     apply (rule p2)
    apply (rule p3 [unfolded Let_def])
    done
qed

theorem simultaneous_fit_structure_witness:
  "[10052.128 :: real] \<noteq> [] \<and> 2 \<le> length [10050, 10052 :: real]
   \<and> length [1, 2 :: real] = length [10050, 10052 :: real]
   \<and> (\<exists>Aw_1 bw_1 Aw_2 bw_2.
         fst (best_linear_fit_model_simultaneous (\<lambda>A b. Inr [0, 0, 0]) erf_series (\<lambda>f a b. 0)
                (\<lambda>x s g. 0) 0 (FloatScalar 5) 0 (FloatScalar 5)
                [10050, 10052] [1, 2] [1, 2] [10050, 10052] [1, 2] [1, 2] [10052.128])
           = [Nnls_call Aw_1 bw_1, Nnls_call Aw_2 bw_2]
         \<and> length Aw_2 = 2 \<and> list_all (\<lambda>row. length row = 3) Aw_2)"
proof -
  have h1: "[10052.128 :: real] \<noteq> []" by simp
  have h2: "2 \<le> length [10050, 10052 :: real]" by simp
  have h3: "case FloatScalar 5 of FloatScalar f \<Rightarrow> True | NonFloatScalar v \<Rightarrow> False
            | PerLine fs \<Rightarrow> length fs = length [10052.128 :: real]"
    by simp
  have h4: "length [1, 2 :: real] = length [10050, 10052 :: real]" by simp
  have u: "[0..<2] = [0, 1]" by (simp add: numeral_2_eq_2)
  have "\<exists>Aw_1 bw_1 Aw_2 bw_2.
         fst (best_linear_fit_model_simultaneous (\<lambda>A b. Inr [0, 0, 0]) erf_series (\<lambda>f a b. 0)
                (\<lambda>x s g. 0) 0 (FloatScalar 5) 0 (FloatScalar 5)
                [10050, 10052] [1, 2] [1, 2] [10050, 10052] [1, 2] [1, 2] [10052.128])
           = [Nnls_call Aw_1 bw_1, Nnls_call Aw_2 bw_2]
         \<and> length Aw_2 = 2 \<and> list_all (\<lambda>row. length row = 3) Aw_2"
    using simultaneous_fit_structure [OF h1 h2 h2 h3 h3 h4 h4 h4 h4,
        where nnls = "\<lambda>A b. Inr [0, 0, 0]" and erf = erf_series and quad = "\<lambda>f a b. 0"
          and voigt_profile = "\<lambda>x s g. 0" and ?velocity_1.0 = 0 and ?velocity_2.0 = 0]
    by (auto simp: u Let_def)
  then show ?thesis using h1 h2 h4 by (intro conjI)
qed

end
